theory Spec2Isabelle
  imports Main "HOL-Library.Word" "HOL-Library.Sublist"
begin

section \<open>JavaScript strings\<close>

text \<open>
  A JavaScript string is a finite sequence of 16-bit code units. The literals of
  \<^verbatim>\<open>FounderPortal.tsx\<close> that the model needs are all ASCII; \<open>js\<close> turns an
  ASCII literal into its code units.
\<close>

type_synonym jschar = "16 word"
type_synonym jsstring = "jschar list"

definition js :: "string \<Rightarrow> jsstring" where
  "js s = map (\<lambda>c. of_nat (of_char c)) s"

text \<open>
  \<^verbatim>\<open>String.prototype.trim\<close> removes the code units of the ECMAScript productions
  WhiteSpace and LineTerminator from both ends: TAB, LF, VT, FF, CR, SP, NBSP, the
  other space separators (U+1680, U+2000 to U+200A, U+202F, U+205F, U+3000), the
  line and paragraph separators U+2028 and U+2029, and the byte order mark U+FEFF.
\<close>

definition is_whitespace :: "jschar \<Rightarrow> bool" where
  "is_whitespace c \<longleftrightarrow>
     (0x9 \<le> c \<and> c \<le> 0xD) \<or> c = 0x20 \<or> c = 0xA0 \<or> c = 0x1680 \<or>
     (0x2000 \<le> c \<and> c \<le> 0x200A) \<or> c = 0x2028 \<or> c = 0x2029 \<or> c = 0x202F \<or>
     c = 0x205F \<or> c = 0x3000 \<or> c = 0xFEFF"

definition trim :: "jsstring \<Rightarrow> jsstring" where
  "trim s = rev (dropWhile is_whitespace (rev (dropWhile is_whitespace s)))"

text \<open>A string is truthy exactly when it is not empty.\<close>

definition truthy :: "jsstring \<Rightarrow> bool" where
  "truthy s \<longleftrightarrow> s \<noteq> []"

text \<open>\<^verbatim>\<open>a && b\<close> on strings: the left operand when it is falsy, the right one otherwise.\<close>

definition js_and :: "jsstring \<Rightarrow> jsstring \<Rightarrow> jsstring" where
  "js_and a b = (if truthy a then b else a)"

text \<open>\<^verbatim>\<open>a || b\<close> on strings: the left operand when it is truthy, the right one otherwise.\<close>

definition js_or :: "jsstring \<Rightarrow> jsstring \<Rightarrow> jsstring" where
  "js_or a b = (if truthy a then a else b)"

section \<open>JSON text\<close>

datatype error = SyntaxError | QuotaExceededError

text \<open>
  The values \<^verbatim>\<open>JSON.parse\<close> can return. A number keeps the characters of its
  literal: nothing in the component computes with one. An object keeps its members in
  the order of the text; a property read takes the last member with that key, as
  \<^verbatim>\<open>JSON.parse\<close> lets a later duplicate overwrite an earlier one.
\<close>

datatype json =
    JNull
  | JBool bool
  | JNumber jsstring
  | JString jsstring
  | JArray "json list"
  | JObject "(jsstring \<times> json) list"

subsection \<open>Writing a string: QuoteJSONString\<close>

definition hex_digit :: "jschar \<Rightarrow> jschar" where
  "hex_digit d = (if d < 10 then 0x30 + d else 0x57 + d)"

definition unicode_escape :: "jschar \<Rightarrow> jsstring" where
  "unicode_escape c =
     [0x5C, 0x75, hex_digit (drop_bit 12 c), hex_digit (and (drop_bit 8 c) 0xF),
      hex_digit (and (drop_bit 4 c) 0xF), hex_digit (and c 0xF)]"

definition is_high_surrogate :: "jschar \<Rightarrow> bool" where
  "is_high_surrogate c \<longleftrightarrow> 0xD800 \<le> c \<and> c \<le> 0xDBFF"

definition is_low_surrogate :: "jschar \<Rightarrow> bool" where
  "is_low_surrogate c \<longleftrightarrow> 0xDC00 \<le> c \<and> c \<le> 0xDFFF"

text \<open>
  One code point that is not a surrogate pair: the two-character escapes of the table
  (backspace, tab, line feed, form feed, carriage return, double quote, backslash),
  a \<^verbatim>\<open>\\uXXXX\<close> escape for the other control characters and for a lone
  surrogate, the code unit itself otherwise.
\<close>

definition quote_unit :: "jschar \<Rightarrow> jsstring" where
  "quote_unit c =
     (if c = 0x08 then [0x5C, 0x62]
      else if c = 0x09 then [0x5C, 0x74]
      else if c = 0x0A then [0x5C, 0x6E]
      else if c = 0x0C then [0x5C, 0x66]
      else if c = 0x0D then [0x5C, 0x72]
      else if c = 0x22 then [0x5C, 0x22]
      else if c = 0x5C then [0x5C, 0x5C]
      else if c < 0x20 \<or> is_high_surrogate c \<or> is_low_surrogate c then unicode_escape c
      else [c])"

fun quote_chars :: "jsstring \<Rightarrow> jsstring" where
  "quote_chars [] = []"
| "quote_chars [c] = quote_unit c"
| "quote_chars (c # d # cs) =
     (if is_high_surrogate c \<and> is_low_surrogate d then c # d # quote_chars cs
      else quote_unit c @ quote_chars (d # cs))"

definition QuoteJSONString :: "jsstring \<Rightarrow> jsstring" where
  "QuoteJSONString s = 0x22 # quote_chars s @ [0x22]"

subsection \<open>Reading: JSON.parse\<close>

definition is_json_ws :: "jschar \<Rightarrow> bool" where
  "is_json_ws c \<longleftrightarrow> c = 0x09 \<or> c = 0x0A \<or> c = 0x0D \<or> c = 0x20"

definition skip_ws :: "jsstring \<Rightarrow> jsstring" where
  "skip_ws s = dropWhile is_json_ws s"

definition hex_value :: "jschar \<Rightarrow> jschar option" where
  "hex_value c =
     (if 0x30 \<le> c \<and> c \<le> 0x39 then Some (c - 0x30)
      else if 0x61 \<le> c \<and> c \<le> 0x66 then Some (c - 0x57)
      else if 0x41 \<le> c \<and> c \<le> 0x46 then Some (c - 0x37)
      else None)"

definition hex4 :: "jschar \<Rightarrow> jschar \<Rightarrow> jschar \<Rightarrow> jschar \<Rightarrow> jschar option" where
  "hex4 a b c d =
     (case (hex_value a, hex_value b, hex_value c, hex_value d) of
        (Some p, Some q, Some r, Some t) \<Rightarrow>
          Some (or (push_bit 12 p) (or (push_bit 8 q) (or (push_bit 4 r) t)))
      | _ \<Rightarrow> None)"

text \<open>The character an escape letter stands for (the letter u is handled apart).\<close>

definition unescape :: "jschar \<Rightarrow> jschar option" where
  "unescape e =
     (if e = 0x22 then Some 0x22
      else if e = 0x2F then Some 0x2F
      else if e = 0x5C then Some 0x5C
      else if e = 0x62 then Some 0x08
      else if e = 0x66 then Some 0x0C
      else if e = 0x6E then Some 0x0A
      else if e = 0x72 then Some 0x0D
      else if e = 0x74 then Some 0x09
      else None)"

definition cons_fst :: "'a \<Rightarrow> ('a list \<times> 'b) option \<Rightarrow> ('a list \<times> 'b) option" where
  "cons_fst c r = map_option (\<lambda>(s, t). (c # s, t)) r"

text \<open>
  The characters of a string literal after its opening quote: the decoded string and
  the text after the closing quote, or \<open>None\<close> where the literal is malformed (no
  closing quote, a raw control character, an unknown or truncated escape).
\<close>

fun parse_chars :: "jsstring \<Rightarrow> (jsstring \<times> jsstring) option" where
  "parse_chars [] = None"
| "parse_chars (c # cs) =
     (if c = 0x22 then Some ([], cs)
      else if c = 0x5C then
        (case cs of
           [] \<Rightarrow> None
         | e # r \<Rightarrow>
             if e = 0x75 then
               (case r of
                  h1 # h2 # h3 # h4 # r' \<Rightarrow>
                    (case hex4 h1 h2 h3 h4 of
                       None \<Rightarrow> None
                     | Some u \<Rightarrow> cons_fst u (parse_chars r'))
                | _ \<Rightarrow> None)
             else
               (case unescape e of
                  None \<Rightarrow> None
                | Some u \<Rightarrow> cons_fst u (parse_chars r)))
      else if c < 0x20 then None
      else cons_fst c (parse_chars cs))"

definition is_digit :: "jschar \<Rightarrow> bool" where
  "is_digit c \<longleftrightarrow> 0x30 \<le> c \<and> c \<le> 0x39"

text \<open>One or more digits, as the fraction and the exponent need them.\<close>

definition digits1 :: "jsstring \<Rightarrow> (jsstring \<times> jsstring) option" where
  "digits1 s =
     (if takeWhile is_digit s = [] then None
      else Some (takeWhile is_digit s, dropWhile is_digit s))"

definition parse_int :: "jsstring \<Rightarrow> (jsstring \<times> jsstring) option" where
  "parse_int s =
     (case s of
        [] \<Rightarrow> None
      | c # r \<Rightarrow>
          if c = 0x30 then Some ([c], r)
          else if is_digit c then Some (c # takeWhile is_digit r, dropWhile is_digit r)
          else None)"

definition parse_frac :: "jsstring \<Rightarrow> (jsstring \<times> jsstring) option" where
  "parse_frac s =
     (case s of
        c # r \<Rightarrow>
          if c = 0x2E then
            (case digits1 r of None \<Rightarrow> None | Some (ds, t) \<Rightarrow> Some (c # ds, t))
          else Some ([], s)
      | [] \<Rightarrow> Some ([], s))"

definition parse_exp :: "jsstring \<Rightarrow> (jsstring \<times> jsstring) option" where
  "parse_exp s =
     (case s of
        c # r \<Rightarrow>
          if c = 0x65 \<or> c = 0x45 then
            (case r of
               g # r' \<Rightarrow>
                 if g = 0x2B \<or> g = 0x2D then
                   (case digits1 r' of None \<Rightarrow> None | Some (ds, t) \<Rightarrow> Some (c # g # ds, t))
                 else
                   (case digits1 r of None \<Rightarrow> None | Some (ds, t) \<Rightarrow> Some (c # ds, t))
             | [] \<Rightarrow> None)
          else Some ([], s)
      | [] \<Rightarrow> Some ([], s))"

definition parse_unsigned :: "jsstring \<Rightarrow> (jsstring \<times> jsstring) option" where
  "parse_unsigned s =
     (case parse_int s of
        None \<Rightarrow> None
      | Some (i, r1) \<Rightarrow>
          (case parse_frac r1 of
             None \<Rightarrow> None
           | Some (f, r2) \<Rightarrow>
               (case parse_exp r2 of
                  None \<Rightarrow> None
                | Some (e, r3) \<Rightarrow> Some (i @ f @ e, r3))))"

definition parse_number :: "jsstring \<Rightarrow> (jsstring \<times> jsstring) option" where
  "parse_number s =
     (case s of
        [] \<Rightarrow> None
      | c # r \<Rightarrow>
          if c = 0x2D then cons_fst c (parse_unsigned r) else parse_unsigned s)"

text \<open>The rest of the text when it starts with the given word.\<close>

definition strip_word :: "jsstring \<Rightarrow> jsstring \<Rightarrow> jsstring option" where
  "strip_word w s = (if take (length w) s = w then Some (drop (length w) s) else None)"

text \<open>
  The recursion of the grammar is bounded by fuel, one unit for each nested call.
  \<open>OutOfFuel\<close> is kept apart from \<open>Malformed\<close>, so that running out of fuel is
  never taken for a syntax error.
\<close>

datatype parsed = Parsed json jsstring | Malformed | OutOfFuel

fun parse_value :: "nat \<Rightarrow> jsstring \<Rightarrow> parsed"
  and parse_elements :: "nat \<Rightarrow> jsstring \<Rightarrow> json list \<Rightarrow> parsed"
  and parse_members :: "nat \<Rightarrow> jsstring \<Rightarrow> (jsstring \<times> json) list \<Rightarrow> parsed"
where
  "parse_value 0 s = OutOfFuel"
| "parse_value (Suc n) s =
     (case s of
        [] \<Rightarrow> Malformed
      | c # cs \<Rightarrow>
          if c = 0x22 then
            (case parse_chars cs of
               None \<Rightarrow> Malformed
             | Some (str, r) \<Rightarrow> Parsed (JString str) r)
          else if c = 0x5B then
            (case skip_ws cs of
               [] \<Rightarrow> Malformed
             | d # ds \<Rightarrow>
                 if d = 0x5D then Parsed (JArray []) ds else parse_elements n (d # ds) [])
          else if c = 0x7B then
            (case skip_ws cs of
               [] \<Rightarrow> Malformed
             | d # ds \<Rightarrow>
                 if d = 0x7D then Parsed (JObject []) ds else parse_members n (d # ds) [])
          else if c = 0x6E then
            (case strip_word (js ''ull'') cs of
               None \<Rightarrow> Malformed
             | Some r \<Rightarrow> Parsed JNull r)
          else if c = 0x74 then
            (case strip_word (js ''rue'') cs of
               None \<Rightarrow> Malformed
             | Some r \<Rightarrow> Parsed (JBool True) r)
          else if c = 0x66 then
            (case strip_word (js ''alse'') cs of
               None \<Rightarrow> Malformed
             | Some r \<Rightarrow> Parsed (JBool False) r)
          else
            (case parse_number s of
               None \<Rightarrow> Malformed
             | Some (lit, r) \<Rightarrow> Parsed (JNumber lit) r))"
| "parse_elements 0 s acc = OutOfFuel"
| "parse_elements (Suc n) s acc =
     (case parse_value n s of
        Parsed v r \<Rightarrow>
          (case skip_ws r of
             [] \<Rightarrow> Malformed
           | d # ds \<Rightarrow>
               if d = 0x2C then parse_elements n (skip_ws ds) (acc @ [v])
               else if d = 0x5D then Parsed (JArray (acc @ [v])) ds
               else Malformed)
      | Malformed \<Rightarrow> Malformed
      | OutOfFuel \<Rightarrow> OutOfFuel)"
| "parse_members 0 s acc = OutOfFuel"
| "parse_members (Suc n) s acc =
     (case s of
        [] \<Rightarrow> Malformed
      | c # cs \<Rightarrow>
          if c \<noteq> 0x22 then Malformed
          else
            (case parse_chars cs of
               None \<Rightarrow> Malformed
             | Some (k, r) \<Rightarrow>
                 (case skip_ws r of
                    [] \<Rightarrow> Malformed
                  | d # ds \<Rightarrow>
                      if d \<noteq> 0x3A then Malformed
                      else
                        (case parse_value n (skip_ws ds) of
                           Parsed v r' \<Rightarrow>
                             (case skip_ws r' of
                                [] \<Rightarrow> Malformed
                              | e # es \<Rightarrow>
                                  if e = 0x2C then parse_members n (skip_ws es) (acc @ [(k, v)])
                                  else if e = 0x7D then Parsed (JObject (acc @ [(k, v)])) es
                                  else Malformed)
                         | Malformed \<Rightarrow> Malformed
                         | OutOfFuel \<Rightarrow> OutOfFuel))))"

text \<open>
  \<^verbatim>\<open>JSON.parse(text)\<close>: one value between optional white space, and nothing
  else; a \<^verbatim>\<open>SyntaxError\<close> is thrown otherwise. The fuel \<open>2 * length s + 1\<close> is
  never used up (lemma \<open>JSON_parse_fuel\<close> below).
\<close>

definition parse_text :: "jsstring \<Rightarrow> parsed" where
  "parse_text s = parse_value (2 * length s + 1) (skip_ws s)"

definition JSON_parse :: "jsstring \<Rightarrow> error + json" where
  "JSON_parse s =
     (case parse_text s of
        Parsed v r \<Rightarrow> if skip_ws r = [] then Inr v else Inl SyntaxError
      | Malformed \<Rightarrow> Inl SyntaxError
      | OutOfFuel \<Rightarrow> Inl SyntaxError)"

section \<open>The data of the component\<close>

text \<open>
  The records follow the type declarations of \<^verbatim>\<open>FounderPortal.tsx\<close>. A field keeps
  its name behind a prefix for its record (\<open>f_\<close>, \<open>s_\<close>, \<open>form_\<close>), since the same
  names occur in several types. The optional \<^verbatim>\<open>website?: string\<close> is an option:
  \<open>None\<close> is \<^verbatim>\<open>undefined\<close>, whether the property is missing or holds it.
\<close>

record FounderProfile =
  f_id :: jsstring
  f_name :: jsstring
  f_company :: jsstring
  f_email :: jsstring
  f_website :: "jsstring option"

record StudentCandidate =
  s_id :: jsstring
  s_name :: jsstring
  s_role :: jsstring
  s_skills :: "jsstring list"
  s_progressPercentage :: int
  s_projectsCompleted :: int
  s_lastActive :: jsstring
  s_contactEmail :: jsstring

record Form =
  form_name :: jsstring
  form_company :: jsstring
  form_email :: jsstring
  form_website :: jsstring

text \<open>
  The authentication context is not part of the file: of the value of
  \<^verbatim>\<open>useAuth().user\<close> the component reads the identifier only. \<open>None\<close> is a missing
  user.
\<close>

record User =
  user_id :: jsstring

subsection \<open>A profile as JSON text, and back\<close>

text \<open>
  \<^verbatim>\<open>JSON.stringify(profile)\<close>: the properties in the order of the object literal,
  without white space; a property that holds \<^verbatim>\<open>undefined\<close> is left out.
\<close>

definition JSON_stringify :: "FounderProfile \<Rightarrow> jsstring" where
  "JSON_stringify p =
     js ''{'' @ QuoteJSONString (js ''id'') @ js '':'' @ QuoteJSONString (f_id p) @
     js '','' @ QuoteJSONString (js ''name'') @ js '':'' @ QuoteJSONString (f_name p) @
     js '','' @ QuoteJSONString (js ''company'') @ js '':'' @ QuoteJSONString (f_company p) @
     js '','' @ QuoteJSONString (js ''email'') @ js '':'' @ QuoteJSONString (f_email p) @
     (case f_website p of
        None \<Rightarrow> []
      | Some w \<Rightarrow> js '','' @ QuoteJSONString (js ''website'') @ js '':'' @ QuoteJSONString w) @
     js ''}''"

text \<open>The members of the object that the text of a profile denotes.\<close>

definition profile_members :: "FounderProfile \<Rightarrow> (jsstring \<times> json) list" where
  "profile_members p =
     [(js ''id'', JString (f_id p)), (js ''name'', JString (f_name p)),
      (js ''company'', JString (f_company p)), (js ''email'', JString (f_email p))] @
     (case f_website p of None \<Rightarrow> [] | Some w \<Rightarrow> [(js ''website'', JString w)])"

definition property :: "(jsstring \<times> json) list \<Rightarrow> string \<Rightarrow> json option" where
  "property ms k = map_of (rev ms) (js k)"

text \<open>
  \<^verbatim>\<open>setFounder(JSON.parse(saved))\<close> takes the parsed value at the declared type
  \<^verbatim>\<open>FounderProfile | null\<close> without a check. The model follows the declared types:
  \<open>as_founder\<close> reads a parsed value of that type (\<^verbatim>\<open>null\<close>, or an object
  whose four required properties are strings and whose \<^verbatim>\<open>website\<close> is a string
  or missing) and is \<open>None\<close> on every other value, where the component would hold a
  value that its types exclude.
\<close>

definition as_founder :: "json \<Rightarrow> FounderProfile option option" where
  "as_founder v =
     (case v of
        JNull \<Rightarrow> Some None
      | JObject ms \<Rightarrow>
          (case (property ms ''id'', property ms ''name'', property ms ''company'',
                 property ms ''email'') of
             (Some (JString i), Some (JString n), Some (JString c), Some (JString e)) \<Rightarrow>
               (case property ms ''website'' of
                  None \<Rightarrow>
                    Some (Some \<lparr>f_id = i, f_name = n, f_company = c, f_email = e,
                                f_website = None\<rparr>)
                | Some (JString w) \<Rightarrow>
                    Some (Some \<lparr>f_id = i, f_name = n, f_company = c, f_email = e,
                                f_website = Some w\<rparr>)
                | Some _ \<Rightarrow> None)
           | _ \<Rightarrow> None)
      | _ \<Rightarrow> None)"

section \<open>The world around the component\<close>

text \<open>
  \<^verbatim>\<open>localStorage\<close>: the stored items, and the writes the browser accepts. A write it
  does not accept (quota used up, storage disabled) throws.
\<close>

record Storage =
  items :: "jsstring \<rightharpoonup> jsstring"
  accepts :: "jsstring \<Rightarrow> jsstring \<Rightarrow> bool"

definition getItem :: "Storage \<Rightarrow> jsstring \<Rightarrow> jsstring option" where
  "getItem ls k = items ls k"

definition setItem :: "Storage \<Rightarrow> jsstring \<Rightarrow> jsstring \<Rightarrow> error + Storage" where
  "setItem ls k v =
     (if accepts ls k v then Inr (ls\<lparr>items := (items ls)(k \<mapsto> v)\<rparr>)
      else Inl QuotaExceededError)"

text \<open>Every operation of the component on its state or on the world, in order.\<close>

datatype effect =
    SetFounder "FounderProfile option"
  | SetFounderParsed json
  | SetForm Form
  | SetStudents "StudentCandidate list"
  | SetIsSubmitting bool
  | GetItem jsstring
  | SetItem jsstring jsstring
  | Navigate jsstring
  | Alert jsstring

record World =
  localStorage :: Storage
  location_href :: jsstring
  log :: "effect list"

text \<open>
  The state of the component, for any type \<open>'f\<close> of the value that the variable
  \<^verbatim>\<open>founder\<close> holds. \<open>State\<close> is the state at the declared type
  \<^verbatim>\<open>FounderProfile | null\<close>. \<^verbatim>\<open>JSON.parse\<close> returns \<^verbatim>\<open>any\<close>, so the mount
  effect can put a value of another shape there: \<open>json ComponentState\<close> is a state
  whose \<open>founder\<close> is such a parsed value.
\<close>

record 'f ComponentState =
  founder :: 'f
  form :: Form
  students :: "StudentCandidate list"
  isSubmitting :: bool

type_synonym State = "FounderProfile option ComponentState"

type_synonym Config = "World \<times> State"

type_synonym ParsedConfig = "World \<times> json ComponentState"

definition initial_state :: State where
  "initial_state =
     \<lparr>founder = None,
      form = \<lparr>form_name = [], form_company = [], form_email = [], form_website = []\<rparr>,
      students = [],
      isSubmitting = False\<rparr>"

definition record_effect :: "effect \<Rightarrow> World \<Rightarrow> World" where
  "record_effect e w = w\<lparr>log := log w @ [e]\<rparr>"

definition setFounder :: "FounderProfile option \<Rightarrow> Config \<Rightarrow> Config" where
  "setFounder p c = (record_effect (SetFounder p) (fst c), (snd c)\<lparr>founder := p\<rparr>)"

definition setForm :: "Form \<Rightarrow> Config \<Rightarrow> Config" where
  "setForm f c = (record_effect (SetForm f) (fst c), (snd c)\<lparr>form := f\<rparr>)"

text \<open>
  \<^verbatim>\<open>setFounder(value)\<close> for a parsed value that is not of the declared type: the
  variable holds the value as it was parsed.
\<close>

definition setFounder_parsed :: "json \<Rightarrow> Config \<Rightarrow> ParsedConfig" where
  "setFounder_parsed v c =
     (record_effect (SetFounderParsed v) (fst c),
      \<lparr>founder = v, form = form (snd c), students = students (snd c),
       isSubmitting = isSubmitting (snd c)\<rparr>)"

definition setStudents ::
  "StudentCandidate list \<Rightarrow> World \<times> 'f ComponentState \<Rightarrow> World \<times> 'f ComponentState"
where
  "setStudents l c = (record_effect (SetStudents l) (fst c), (snd c)\<lparr>students := l\<rparr>)"

definition setIsSubmitting :: "bool \<Rightarrow> Config \<Rightarrow> Config" where
  "setIsSubmitting b c = (record_effect (SetIsSubmitting b) (fst c), (snd c)\<lparr>isSubmitting := b\<rparr>)"

definition localStorage_getItem :: "jsstring \<Rightarrow> Config \<Rightarrow> jsstring option \<times> Config" where
  "localStorage_getItem k c =
     (getItem (localStorage (fst c)) k, (record_effect (GetItem k) (fst c), snd c))"

text \<open>An operation that may throw returns the error, if any, and the configuration it leaves.\<close>

definition localStorage_setItem :: "jsstring \<Rightarrow> jsstring \<Rightarrow> Config \<Rightarrow> error option \<times> Config" where
  "localStorage_setItem k v c =
     (let w = record_effect (SetItem k v) (fst c)
      in case setItem (localStorage w) k v of
           Inl e \<Rightarrow> (Some e, (w, snd c))
         | Inr ls \<Rightarrow> (None, (w\<lparr>localStorage := ls\<rparr>, snd c)))"

definition navigate :: "jsstring \<Rightarrow> Config \<Rightarrow> Config" where
  "navigate url c = (record_effect (Navigate url) ((fst c)\<lparr>location_href := url\<rparr>), snd c)"

definition alert :: "jsstring \<Rightarrow> Config \<Rightarrow> Config" where
  "alert msg c = (record_effect (Alert msg) (fst c), snd c)"

text \<open>\<^verbatim>\<open>try { body } finally { fin }\<close>: \<open>fin\<close> runs whether or not the body threw.\<close>

definition try_finally ::
  "(Config \<Rightarrow> error option \<times> Config) \<Rightarrow> (Config \<Rightarrow> Config) \<Rightarrow> Config \<Rightarrow> error option \<times> Config"
where
  "try_finally body fin c = (case body c of (r, c') \<Rightarrow> (r, fin c'))"

section \<open>The component\<close>

definition profile_key :: jsstring where
  "profile_key = js ''psyduck_founder_profile''"

definition mock :: "StudentCandidate list" where
  "mock =
     [\<lparr>s_id = js ''u1'', s_name = js ''Aarav Sharma'', s_role = js ''Frontend Developer'',
        s_skills = [js ''React'', js ''TypeScript'', js ''Tailwind''],
        s_progressPercentage = 78, s_projectsCompleted = 5, s_lastActive = js ''2h ago'',
        s_contactEmail = js ''aarav@example.com''\<rparr>,
      \<lparr>s_id = js ''u2'', s_name = js ''Zoya Khan'', s_role = js ''Fullstack Developer'',
        s_skills = [js ''Node.js'', js ''PostgreSQL'', js ''React''],
        s_progressPercentage = 91, s_projectsCompleted = 8, s_lastActive = js ''1d ago'',
        s_contactEmail = js ''zoya@example.com''\<rparr>,
      \<lparr>s_id = js ''u3'', s_name = js ''Kabir Patel'', s_role = js ''Data Engineer'',
        s_skills = [js ''Python'', js ''Airflow'', js ''SQL''],
        s_progressPercentage = 64, s_projectsCompleted = 3, s_lastActive = js ''5h ago'',
        s_contactEmail = js ''kabir@example.com''\<rparr>]"

text \<open>
  The effect that runs once, after the first render. The parse has no handler: a
  \<^verbatim>\<open>SyntaxError\<close> leaves the effect at once, before the list of students is set;
  \<open>Threw\<close> holds the error and the configuration at that point.

  For every stored text that parses, the effect calls \<^verbatim>\<open>setFounder\<close> with the parsed
  value and then \<^verbatim>\<open>setStudents(mock)\<close>; the source checks nothing about the value.
  The two branches on \<open>as_founder\<close> do the same two calls and differ only in the type
  at which the model holds the value: \<open>Mounted\<close> is a configuration at the declared
  type, \<open>IllTyped\<close> the configuration whose \<open>founder\<close> is a parsed value of another
  shape (a number, a string, an object without the required properties).
\<close>

datatype mounted = Mounted Config | Threw error Config | IllTyped ParsedConfig

definition mount :: "Config \<Rightarrow> mounted" where
  "mount c =
     (case localStorage_getItem profile_key c of
        (saved, c1) \<Rightarrow>
          (case saved of
             None \<Rightarrow> Mounted (setStudents mock c1)
           | Some s \<Rightarrow>
               if truthy s then
                 (case JSON_parse s of
                    Inl e \<Rightarrow> Threw e c1
                  | Inr v \<Rightarrow>
                      (case as_founder v of
                         None \<Rightarrow> IllTyped (setStudents mock (setFounder_parsed v c1))
                       | Some p \<Rightarrow> Mounted (setStudents mock (setFounder p c1))))
               else Mounted (setStudents mock c1)))"

definition canSubmit :: "Form \<Rightarrow> jsstring" where
  "canSubmit f = js_and (js_and (trim (form_name f)) (trim (form_company f))) (trim (form_email f))"

text \<open>\<^verbatim>\<open>form.website.trim() || undefined\<close>\<close>

definition or_undefined :: "jsstring \<Rightarrow> jsstring option" where
  "or_undefined s = (if truthy s then Some s else None)"

text \<open>\<^verbatim>\<open>user?.id || 'local-founder'\<close>\<close>

definition profile_id :: "User option \<Rightarrow> jsstring" where
  "profile_id user =
     (case user of
        None \<Rightarrow> js ''local-founder''
      | Some u \<Rightarrow> js_or (user_id u) (js ''local-founder''))"

definition make_profile :: "User option \<Rightarrow> Form \<Rightarrow> FounderProfile" where
  "make_profile user f =
     \<lparr>f_id = profile_id user,
      f_name = trim (form_name f),
      f_company = trim (form_company f),
      f_email = trim (form_email f),
      f_website = or_undefined (trim (form_website f))\<rparr>"

text \<open>
  The submit handler. Its \<^verbatim>\<open>e.preventDefault()\<close> keeps the browser from reloading
  the page, which the model does not have. The handler is \<^verbatim>\<open>async\<close> without an
  \<^verbatim>\<open>await\<close>: it runs to its end at once, and an error that leaves it is the
  rejection of its promise; the model returns that error beside the configuration.

  The body of the \<^verbatim>\<open>try\<close>: \<^verbatim>\<open>setFounder\<close> is not reached when the write throws.
\<close>

definition signup_body :: "User option \<Rightarrow> Form \<Rightarrow> Config \<Rightarrow> error option \<times> Config" where
  "signup_body user f c =
     (let profile = make_profile user f
      in case localStorage_setItem profile_key (JSON_stringify profile) c of
           (Some e, c') \<Rightarrow> (Some e, c')
         | (None, c') \<Rightarrow> (None, setFounder (Some profile) c'))"

definition handleSignup :: "User option \<Rightarrow> Config \<Rightarrow> error option \<times> Config" where
  "handleSignup user c =
     (if \<not> truthy (canSubmit (form (snd c))) then (None, c)
      else try_finally (signup_body user (form (snd c))) (setIsSubmitting False)
             (setIsSubmitting True c))"

text \<open>\<^verbatim>\<open>founder?.company || 'our company'\<close>\<close>

definition company_or_default :: "FounderProfile option \<Rightarrow> jsstring" where
  "company_or_default fo =
     (case fo of
        None \<Rightarrow> js ''our company''
      | Some p \<Rightarrow> js_or (f_company p) (js ''our company''))"

text \<open>The template literal of the link, cut at its \<^verbatim>\<open>?subject=\<close> and \<^verbatim>\<open>&body=\<close>.\<close>

definition contact_subject :: "StudentCandidate \<Rightarrow> jsstring" where
  "contact_subject student = js ''Collaboration%20with%20'' @ s_name student"

definition contact_body :: "StudentCandidate \<Rightarrow> FounderProfile option \<Rightarrow> jsstring" where
  "contact_body student fo =
     js ''Hi%20'' @ s_name student @
     js '',%0D%0A%0D%0AI%20would%20love%20to%20connect%20regarding%20opportunities%20at%20'' @
     company_or_default fo @ js ''.''"

definition contact_href :: "StudentCandidate \<Rightarrow> FounderProfile option \<Rightarrow> jsstring" where
  "contact_href student fo =
     js ''mailto:'' @ s_contactEmail student @ js ''?subject='' @ contact_subject student @
     js ''&body='' @ contact_body student fo"

definition handleContact :: "StudentCandidate \<Rightarrow> Config \<Rightarrow> Config" where
  "handleContact student c = navigate (contact_href student (founder (snd c))) c"

definition handleHire :: "StudentCandidate \<Rightarrow> Config \<Rightarrow> Config" where
  "handleHire student c = alert (js ''Hiring request sent for '' @ s_name student) c"

subsection \<open>What is rendered\<close>

datatype view = FormView | CandidateListView

definition render :: "State \<Rightarrow> view" where
  "render st = (if founder st = None then FormView else CandidateListView)"

text \<open>\<^verbatim>\<open>disabled={!canSubmit || isSubmitting}\<close>\<close>

definition submit_disabled :: "State \<Rightarrow> bool" where
  "submit_disabled st \<longleftrightarrow> \<not> truthy (canSubmit (form st)) \<or> isSubmitting st"

subsection \<open>The events of the page\<close>

datatype event =
    ChangeName jsstring
  | ChangeCompany jsstring
  | ChangeEmail jsstring
  | ChangeWebsite jsstring
  | Submit "User option"
  | Contact StudentCandidate
  | Hire StudentCandidate

definition fire :: "event \<Rightarrow> Config \<Rightarrow> Config" where
  "fire ev c =
     (case ev of
        ChangeName v \<Rightarrow> setForm ((form (snd c))\<lparr>form_name := v\<rparr>) c
      | ChangeCompany v \<Rightarrow> setForm ((form (snd c))\<lparr>form_company := v\<rparr>) c
      | ChangeEmail v \<Rightarrow> setForm ((form (snd c))\<lparr>form_email := v\<rparr>) c
      | ChangeWebsite v \<Rightarrow> setForm ((form (snd c))\<lparr>form_website := v\<rparr>) c
      | Submit user \<Rightarrow> snd (handleSignup user c)
      | Contact student \<Rightarrow> handleContact student c
      | Hire student \<Rightarrow> handleHire student c)"

text \<open>
  The configurations a mounted component goes through: the one its effect leaves, and
  those the events lead to from there. Before that there is the first render, in the
  initial state. The runs followed are those at the declared type: what the component
  does after its effect has left a founder of another shape is not modelled.
\<close>

inductive running :: "Config \<Rightarrow> bool" where
  after_mount: "mount (w, initial_state) = Mounted c \<Longrightarrow> running c"
| after_event: "running c \<Longrightarrow> running (fire ev c)"

definition reachable :: "Config \<Rightarrow> bool" where
  "reachable c \<longleftrightarrow> (\<exists>w. c = (w, initial_state)) \<or> running c"

subsection \<open>What the specification means by a URL-encoded text\<close>

text \<open>
  This definition follows the words of the specification, not the source: a text is
  URL-encoded when each of its characters is either one that RFC 3986 allows in the query
  of a URI as it stands, or the start of a percent escape with two hexadecimal digits.
\<close>

definition is_hex_digit :: "jschar \<Rightarrow> bool" where
  "is_hex_digit c \<longleftrightarrow>
     (0x30 \<le> c \<and> c \<le> 0x39) \<or> (0x41 \<le> c \<and> c \<le> 0x46) \<or> (0x61 \<le> c \<and> c \<le> 0x66)"

definition is_uri_char :: "jschar \<Rightarrow> bool" where
  "is_uri_char c \<longleftrightarrow>
     (0x30 \<le> c \<and> c \<le> 0x39) \<or> (0x41 \<le> c \<and> c \<le> 0x5A) \<or> (0x61 \<le> c \<and> c \<le> 0x7A) \<or>
     c \<in> set (js ''-._~!$&()*+,;=:@/?'') \<or> c = 0x27"

fun url_encoded :: "jsstring \<Rightarrow> bool" where
  "url_encoded [] = True"
| "url_encoded (c # cs) =
     (if c = 0x25 then
        (case cs of
           h1 # h2 # r \<Rightarrow> is_hex_digit h1 \<and> is_hex_digit h2 \<and> url_encoded r
         | _ \<Rightarrow> False)
      else is_uri_char c \<and> url_encoded cs)"

subsection \<open>How a mailto link is read\<close>

text \<open>
  These definitions follow the words of the specification (the recipient, the subject
  line and the body of the link), not the source, which only builds the text. They read
  a link as RFC 6068 lays it out: after \<^verbatim>\<open>mailto:\<close> the recipient, up to the first
  \<^verbatim>\<open>?\<close>; then the header fields \<^verbatim>\<open>name=value\<close>, separated by \<^verbatim>\<open>&\<close>; a
  \<^verbatim>\<open>#\<close> ends the link. A field is taken as it is written, without percent-decoding,
  and of two fields with one name the first counts.
\<close>

definition without_fragment :: "jsstring \<Rightarrow> jsstring" where
  "without_fragment s = takeWhile (\<lambda>x. x \<noteq> 0x23) s"

definition mailto_recipient :: "jsstring \<Rightarrow> jsstring option" where
  "mailto_recipient url =
     (case strip_word (js ''mailto:'') url of
        None \<Rightarrow> None
      | Some r \<Rightarrow> Some (takeWhile (\<lambda>x. x \<noteq> 0x3F) (without_fragment r)))"

definition mailto_query :: "jsstring \<Rightarrow> jsstring option" where
  "mailto_query url =
     (case strip_word (js ''mailto:'') url of
        None \<Rightarrow> None
      | Some r \<Rightarrow>
          (case dropWhile (\<lambda>x. x \<noteq> 0x3F) (without_fragment r) of
             [] \<Rightarrow> None
           | q # qs \<Rightarrow> Some qs))"

fun split_on :: "jschar \<Rightarrow> jsstring \<Rightarrow> jsstring list" where
  "split_on c [] = [[]]"
| "split_on c (x # xs) =
     (if x = c then [] # split_on c xs
      else (case split_on c xs of [] \<Rightarrow> [[x]] | f # fs \<Rightarrow> (x # f) # fs))"

definition header_field :: "jsstring \<Rightarrow> jsstring \<times> jsstring" where
  "header_field f =
     (takeWhile (\<lambda>x. x \<noteq> 0x3D) f, drop 1 (dropWhile (\<lambda>x. x \<noteq> 0x3D) f))"

definition mailto_field :: "string \<Rightarrow> jsstring \<Rightarrow> jsstring option" where
  "mailto_field name url =
     (case mailto_query url of
        None \<Rightarrow> None
      | Some q \<Rightarrow> map_of (map header_field (split_on 0x26 q)) (js name))"

subsection \<open>Concrete configurations\<close>

definition example_world :: World where
  "example_world =
     \<lparr>localStorage = \<lparr>items = Map.empty, accepts = (\<lambda>k v. True)\<rparr>,
      location_href = js ''https://psyduck.example/founders'',
      log = []\<rparr>"

definition example_mounted :: Config where
  "example_mounted =
     setStudents mock (snd (localStorage_getItem profile_key (example_world, initial_state)))"

definition example_filled :: Config where
  "example_filled =
     fire (ChangeEmail (js ''r@acme.com''))
       (fire (ChangeCompany (js ''Acme''))
         (fire (ChangeName (js ''Rohan'')) example_mounted))"

definition example_blank :: Config where
  "example_blank =
     fire (ChangeEmail (js ''r@acme.com''))
       (fire (ChangeCompany (js ''Acme''))
         (fire (ChangeName (js ''   '')) example_mounted))"

definition example_profile :: FounderProfile where
  "example_profile =
     \<lparr>f_id = js ''local-founder'', f_name = js ''Rohan'', f_company = js ''Acme'',
      f_email = js ''r@acme.com'', f_website = None\<rparr>"

definition zoya :: StudentCandidate where
  "zoya = mock ! 1"

definition example_rejecting :: Config where
  "example_rejecting =
     ((fst example_filled)\<lparr>localStorage := \<lparr>items = Map.empty, accepts = (\<lambda>k v. False)\<rparr>\<rparr>,
      snd example_filled)"

definition example_malformed_world :: World where
  "example_malformed_world =
     example_world\<lparr>localStorage :=
       \<lparr>items = [profile_key \<mapsto> js ''{broken''], accepts = (\<lambda>k v. True)\<rparr>\<rparr>"

definition example_garbage_world :: World where
  "example_garbage_world =
     example_world\<lparr>localStorage :=
       \<lparr>items = [profile_key \<mapsto> js ''not json''], accepts = (\<lambda>k v. True)\<rparr>\<rparr>"

definition example_with_website :: Config where
  "example_with_website = fire (ChangeWebsite (js '' https://acme.com '')) example_filled"

definition example_empty_id_user :: User where
  "example_empty_id_user = \<lparr>user_id = []\<rparr>"

definition example_number_world :: World where
  "example_number_world =
     example_world\<lparr>localStorage :=
       \<lparr>items = [profile_key \<mapsto> js ''123''], accepts = (\<lambda>k v. True)\<rparr>\<rparr>"

definition example_ampersand :: Config where
  "example_ampersand =
     fire (Submit None) (fire (ChangeCompany (js ''AT&T'')) example_filled)"

definition ampersand_profile :: FounderProfile where
  "ampersand_profile = example_profile\<lparr>f_company := js ''AT&T''\<rparr>"

section \<open>Properties\<close>

lemma dropWhile_all_iff: "(\<forall>x \<in> set (dropWhile P s). P x) \<longleftrightarrow> (\<forall>x \<in> set s. P x)"
  by (induction s) auto

lemma trim_empty_iff: "trim s = [] \<longleftrightarrow> (\<forall>c \<in> set s. is_whitespace c)"
  by (simp add: trim_def dropWhile_eq_Nil_conv dropWhile_all_iff)

subsection \<open>Strings survive writing and reading\<close>

lemma small_nat_cases:
  "(n::nat) < 16 \<Longrightarrow> n \<in> {0,1,2,3,4,5,6,7,8,9,10,11,12,13,14,15}"
  by (simp; arith)

lemma small_word_cases:
  fixes d :: "16 word"
  assumes "d < 16"
  shows "d \<in> {0,1,2,3,4,5,6,7,8,9,10,11,12,13,14,15}"
proof -
  have "unat d < 16" using assms by (simp add: word_less_nat_alt)
  then have "unat d \<in> {0,1,2,3,4,5,6,7,8,9,10,11,12,13,14,15}" by (rule small_nat_cases)
  then have "of_nat (unat d) \<in> (of_nat ` {0,1,2,3,4,5,6,7,8,9,10,11,12,13,14,15} :: 16 word set)"
    by (rule imageI)
  then show ?thesis by simp
qed

lemma word16_order_nat:
  fixes a b :: "16 word"
  shows "a \<le> b \<longleftrightarrow> unat a \<le> unat b" "a < b \<longleftrightarrow> unat a < unat b"
  by (simp_all add: word_le_nat_alt word_less_nat_alt)

lemma low_nibble: "and x 0xF = take_bit 4 x" for x :: "16 word"
  by (simp add: take_bit_eq_mask mask_eq_exp_minus_1)

lemma nibbles:
  fixes c :: "16 word"
  shows "or (push_bit 12 (drop_bit 12 c))
           (or (push_bit 8 (and (drop_bit 8 c) 0xF))
             (or (push_bit 4 (and (drop_bit 4 c) 0xF)) (and c 0xF))) = c"
  unfolding low_nibble
proof (rule bit_word_eqI)
  fix n :: nat
  assume "n < LENGTH(16)"
  consider "n < 4" | "4 \<le> n" "n < 8" | "8 \<le> n" "n < 12" | "12 \<le> n"
    by linarith
  then show "bit (or (push_bit 12 (drop_bit 12 c))
           (or (push_bit 8 (take_bit 4 (drop_bit 8 c)))
             (or (push_bit 4 (take_bit 4 (drop_bit 4 c))) (take_bit 4 c)))) n = bit c n"
    using \<open>n < LENGTH(16)\<close> by cases (auto simp: bit_simps)
qed

lemma nibble_bounds:
  fixes c :: "16 word"
  shows "drop_bit 12 c < 16" "and c 0xF < 16"
proof -
  have "unat c < 2 ^ 16"
    using unsigned_less [of c] by simp
  then have "unat c div 2 ^ 12 < 16"
    by simp
  then show "drop_bit 12 c < 16"
    by (simp add: word_less_nat_alt drop_bit_eq_div unat_div)
  have "unat c mod 2 ^ 4 < 16"
    by simp
  then show "and c 0xF < 16"
    by (simp add: low_nibble word_less_nat_alt take_bit_eq_mod unat_mod)
qed

lemma hex_value_hex_digit:
  assumes "d < 16"
  shows "hex_value (hex_digit d) = Some d"
proof -
  have "d \<in> {0,1,2,3,4,5,6,7,8,9,10,11,12,13,14,15}"
    using assms by (rule small_word_cases)
  then consider "d = 0" | "d = 1" | "d = 2" | "d = 3" | "d = 4" | "d = 5" | "d = 6" | "d = 7"
    | "d = 8" | "d = 9" | "d = 10" | "d = 11" | "d = 12" | "d = 13" | "d = 14" | "d = 15"
    by blast
  then show ?thesis
    by cases (simp_all add: hex_value_def hex_digit_def)
qed

lemma hex4_unicode_escape:
  "hex4 (hex_digit (drop_bit 12 c)) (hex_digit (and (drop_bit 8 c) 0xF))
     (hex_digit (and (drop_bit 4 c) 0xF)) (hex_digit (and c 0xF)) = Some c"
proof -
  have digits:
    "hex_value (hex_digit (drop_bit 12 c)) = Some (drop_bit 12 c)"
    "hex_value (hex_digit (and (drop_bit 8 c) 0xF)) = Some (and (drop_bit 8 c) 0xF)"
    "hex_value (hex_digit (and (drop_bit 4 c) 0xF)) = Some (and (drop_bit 4 c) 0xF)"
    "hex_value (hex_digit (and c 0xF)) = Some (and c 0xF)"
    by (rule hex_value_hex_digit, rule nibble_bounds)+
  show ?thesis
    unfolding hex4_def by (simp only: digits nibbles prod.case option.case)
qed

lemma parse_chars_unicode_escape:
  "parse_chars (unicode_escape c @ rest) = cons_fst c (parse_chars rest)"
  unfolding unicode_escape_def using hex4_unicode_escape [of c] by simp

lemma parse_chars_escape:
  assumes "unescape e = Some u" "e \<noteq> 0x75"
  shows "parse_chars (0x5C # e # rest) = cons_fst u (parse_chars rest)"
  using assms by simp

lemma quote_unit_cases:
  obtains (escape) e where "quote_unit c = [0x5C, e]" "unescape e = Some c" "e \<noteq> 0x75"
  | (unicode) "quote_unit c = unicode_escape c"
  | (literal) "quote_unit c = [c]" "c \<noteq> 0x22" "c \<noteq> 0x5C" "\<not> c < 0x20"
proof -
  consider "c = 0x08" | "c = 0x09" | "c = 0x0A" | "c = 0x0C" | "c = 0x0D" | "c = 0x22"
    | "c = 0x5C"
    | "c \<noteq> 0x08" "c \<noteq> 0x09" "c \<noteq> 0x0A" "c \<noteq> 0x0C" "c \<noteq> 0x0D" "c \<noteq> 0x22" "c \<noteq> 0x5C"
    by blast
  then show thesis
  proof cases
    case 1 then show ?thesis by (intro escape [where e = "0x62"]) (simp_all add: quote_unit_def unescape_def)
  next
    case 2 then show ?thesis by (intro escape [where e = "0x74"]) (simp_all add: quote_unit_def unescape_def)
  next
    case 3 then show ?thesis by (intro escape [where e = "0x6E"]) (simp_all add: quote_unit_def unescape_def)
  next
    case 4 then show ?thesis by (intro escape [where e = "0x66"]) (simp_all add: quote_unit_def unescape_def)
  next
    case 5 then show ?thesis by (intro escape [where e = "0x72"]) (simp_all add: quote_unit_def unescape_def)
  next
    case 6 then show ?thesis by (intro escape [where e = "0x22"]) (simp_all add: quote_unit_def unescape_def)
  next
    case 7 then show ?thesis by (intro escape [where e = "0x5C"]) (simp_all add: quote_unit_def unescape_def)
  next
    case 8
    show ?thesis
    proof (cases "c < 0x20 \<or> is_high_surrogate c \<or> is_low_surrogate c")
      case True
      with 8 have "quote_unit c = unicode_escape c"
        by (simp add: quote_unit_def)
      then show ?thesis by (rule unicode)
    next
      case False
      with 8 have "quote_unit c = [c]"
        by (simp add: quote_unit_def)
      then show ?thesis using 8 False by (intro literal) simp_all
    qed
  qed
qed

lemma parse_chars_quote_unit:
  "parse_chars (quote_unit c @ rest) = cons_fst c (parse_chars rest)"
proof (cases c rule: quote_unit_cases)
  case (escape e)
  then show ?thesis using parse_chars_escape [of e c rest] by simp
next
  case unicode
  then show ?thesis by (simp only: parse_chars_unicode_escape)
next
  case literal
  then show ?thesis by simp
qed

lemma parse_chars_pair:
  assumes "is_high_surrogate c" "is_low_surrogate d"
  shows "parse_chars (c # d # rest) = cons_fst c (cons_fst d (parse_chars rest))"
proof -
  have "c \<noteq> 0x22" "c \<noteq> 0x5C" "\<not> c < 0x20" "d \<noteq> 0x22" "d \<noteq> 0x5C" "\<not> d < 0x20"
    using assms by (auto simp: is_high_surrogate_def is_low_surrogate_def word16_order_nat)
  then show ?thesis by simp
qed

lemma parse_chars_quote_chars: "parse_chars (quote_chars s @ 0x22 # r) = Some (s, r)"
proof (induction s rule: quote_chars.induct)
  case 1
  show ?case by simp
next
  case (2 c)
  show ?case by (simp add: parse_chars_quote_unit cons_fst_def)
next
  case (3 c d cs)
  show ?case
  proof (cases "is_high_surrogate c \<and> is_low_surrogate d")
    case True
    then have "quote_chars (c # d # cs) = c # d # quote_chars cs"
      by simp
    moreover have "parse_chars (quote_chars cs @ 0x22 # r) = Some (cs, r)"
      using True by (rule 3)
    ultimately show ?thesis
      using True by (simp add: parse_chars_pair cons_fst_def del: parse_chars.simps)
  next
    case False
    then have "quote_chars (c # d # cs) = quote_unit c @ quote_chars (d # cs)"
      by auto
    moreover have "parse_chars (quote_chars (d # cs) @ 0x22 # r) = Some (d # cs, r)"
      using False by (rule 3)
    ultimately show ?thesis
      by (simp add: parse_chars_quote_unit cons_fst_def del: parse_chars.simps)
  qed
qed

subsection \<open>The fuel of the parser is never used up\<close>

lemma length_skip_ws: "length (skip_ws s) \<le> length s"
  by (simp add: skip_ws_def length_dropWhile_le)

lemma skip_ws_Cons_shorter: "skip_ws r = d # ds \<Longrightarrow> length ds < length r"
  using length_skip_ws [of r] by simp

lemma cons_fst_Some: "cons_fst c x = Some (str, r) \<Longrightarrow> \<exists>t. x = Some (t, r)"
  by (cases x) (auto simp: cons_fst_def)

lemma parse_chars_shorter: "parse_chars s = Some (str, r) \<Longrightarrow> length r < length s"
proof (induction s arbitrary: str rule: parse_chars.induct)
  case 1
  then show ?case by simp
next
  case (2 c cs)
  show ?case
  proof (cases "c = 0x22")
    case True
    with "2.prems" show ?thesis by simp
  next
    case quote: False
    show ?thesis
    proof (cases "c = 0x5C")
      case True
      show ?thesis
      proof (cases cs)
        case Nil
        with quote True "2.prems" show ?thesis by simp
      next
        case (Cons e r')
        show ?thesis
        proof (cases "e = 0x75")
          case u: True
          show ?thesis
          proof (cases r')
            case Nil
            with quote True Cons u "2.prems" show ?thesis by simp
          next
            case l1: (Cons h1 r1)
            show ?thesis
            proof (cases r1)
              case Nil
              with quote True Cons u l1 "2.prems" show ?thesis by simp
            next
              case l2: (Cons h2 r2)
              show ?thesis
              proof (cases r2)
                case Nil
                with quote True Cons u l1 l2 "2.prems" show ?thesis by simp
              next
                case l3: (Cons h3 r3)
                show ?thesis
                proof (cases r3)
                  case Nil
                  with quote True Cons u l1 l2 l3 "2.prems" show ?thesis by simp
                next
                  case l4: (Cons h4 r4)
                  from quote True Cons u l1 l2 l3 l4 "2.prems"
                  obtain w t where "hex4 h1 h2 h3 h4 = Some w" "parse_chars r4 = Some (t, r)"
                    by (auto split: option.splits dest: cons_fst_Some)
                  then have "length r < length r4"
                    using "2.IH"(1) [OF quote True Cons u l1 l2 l3 l4] by blast
                  then show ?thesis
                    by (simp add: Cons l1 l2 l3 l4)
                qed
              qed
            qed
          qed
        next
          case False
          from quote True Cons False "2.prems"
          obtain w t where "unescape e = Some w" "parse_chars r' = Some (t, r)"
            by (auto split: option.splits dest: cons_fst_Some)
          then have "length r < length r'"
            using "2.IH"(2) [OF quote True Cons False] by blast
          then show ?thesis by (simp add: Cons)
        qed
      qed
    next
      case False
      from quote False "2.prems" obtain t where "\<not> c < 0x20" "parse_chars cs = Some (t, r)"
        by (auto split: if_splits dest: cons_fst_Some)
      then have "length r < length cs"
        using "2.IH"(3) [OF quote False] by blast
      then show ?thesis by simp
    qed
  qed
qed

lemma digits1_shorter: "digits1 s = Some (ds, r) \<Longrightarrow> length r \<le> length s"
  by (auto simp: digits1_def length_dropWhile_le split: if_splits)

lemma parse_int_shorter: "parse_int s = Some (i, r) \<Longrightarrow> length r < length s"
  by (auto simp: parse_int_def length_dropWhile_le less_Suc_eq_le split: list.splits if_splits)

lemma parse_frac_shorter: "parse_frac s = Some (f, r) \<Longrightarrow> length r \<le> length s"
  by (auto simp: parse_frac_def split: list.splits if_splits option.splits
      dest!: digits1_shorter)

lemma parse_exp_shorter: "parse_exp s = Some (e, r) \<Longrightarrow> length r \<le> length s"
  by (auto simp: parse_exp_def split: list.splits if_splits option.splits
      dest!: digits1_shorter)

lemma parse_unsigned_shorter: "parse_unsigned s = Some (lit, r) \<Longrightarrow> length r < length s"
  by (auto simp: parse_unsigned_def split: option.splits
      dest!: parse_int_shorter parse_frac_shorter parse_exp_shorter)

lemma parse_number_shorter: "parse_number s = Some (lit, r) \<Longrightarrow> length r < length s"
  by (auto simp: parse_number_def split: list.splits if_splits
      dest!: cons_fst_Some parse_unsigned_shorter)

lemma strip_word_shorter: "strip_word w s = Some r \<Longrightarrow> length r \<le> length s"
  by (auto simp: strip_word_def split: if_splits)

lemma parse_shorter_all:
  "(\<forall>s v r. parse_value n s = Parsed v r \<longrightarrow> length r < length s) \<and>
   (\<forall>s acc v r. parse_elements n s acc = Parsed v r \<longrightarrow> length r < length s) \<and>
   (\<forall>s acc v r. parse_members n s acc = Parsed v r \<longrightarrow> length r < length s)"
proof (induction n)
  case 0
  show ?case by simp
next
  case (Suc n)
  then have val: "\<And>s v r. parse_value n s = Parsed v r \<Longrightarrow> length r < length s"
    and els: "\<And>s acc v r. parse_elements n s acc = Parsed v r \<Longrightarrow> length r < length s"
    and mems: "\<And>s acc v r. parse_members n s acc = Parsed v r \<Longrightarrow> length r < length s"
    by blast+
  have "length r < length s" if "parse_value (Suc n) s = Parsed v r" for s v r
  proof (cases s)
    case Nil
    with that show ?thesis by simp
  next
    case (Cons c cs)
    consider "c = 0x22" | "c = 0x5B" | "c = 0x7B" | "c = 0x6E" | "c = 0x74" | "c = 0x66"
      | "c \<noteq> 0x22" "c \<noteq> 0x5B" "c \<noteq> 0x7B" "c \<noteq> 0x6E" "c \<noteq> 0x74" "c \<noteq> 0x66"
      by blast
    then show ?thesis
    proof cases
      case 1
      with that Cons show ?thesis
        by (auto simp del: parse_chars.simps split: option.splits dest!: parse_chars_shorter)
    next
      case 2
      with that Cons show ?thesis
        by (auto split: list.splits if_splits dest!: els skip_ws_Cons_shorter)
    next
      case 3
      with that Cons show ?thesis
        by (auto split: list.splits if_splits dest!: mems skip_ws_Cons_shorter)
    next
      case 4
      with that Cons show ?thesis
        by (auto split: option.splits dest!: strip_word_shorter)
    next
      case 5
      with that Cons show ?thesis
        by (auto split: option.splits dest!: strip_word_shorter)
    next
      case 6
      with that Cons show ?thesis
        by (auto split: option.splits dest!: strip_word_shorter)
    next
      case 7
      with that Cons show ?thesis
        by (auto split: option.splits dest!: parse_number_shorter)
    qed
  qed
  moreover have "length r < length s" if "parse_elements (Suc n) s acc = Parsed v r"
    for s acc v r
    using that
    by (auto split: parsed.splits list.splits if_splits dest!: val els skip_ws_Cons_shorter
        dest!: less_le_trans [OF _ length_skip_ws])
  moreover have "length r < length s" if "parse_members (Suc n) s acc = Parsed v r"
    for s acc v r
    using that
    by (auto simp del: parse_chars.simps
        split: parsed.splits list.splits if_splits option.splits
        dest!: val mems skip_ws_Cons_shorter parse_chars_shorter
        dest!: less_le_trans [OF _ length_skip_ws])
  ultimately show ?case by blast
qed

lemma parse_value_shorter: "parse_value n s = Parsed v r \<Longrightarrow> length r < length s"
  using parse_shorter_all [of n] by blast

lemma parse_fuel_all:
  "(\<forall>s. 2 * length s < n \<longrightarrow> parse_value n s \<noteq> OutOfFuel) \<and>
   (\<forall>s acc. 2 * length s + 1 < n \<longrightarrow> parse_elements n s acc \<noteq> OutOfFuel) \<and>
   (\<forall>s acc. 2 * length s + 1 < n \<longrightarrow> parse_members n s acc \<noteq> OutOfFuel)"
proof (induction n)
  case 0
  show ?case by simp
next
  case (Suc n)
  then have val: "\<And>s. 2 * length s < n \<Longrightarrow> parse_value n s \<noteq> OutOfFuel"
    and els: "\<And>s acc. 2 * length s + 1 < n \<Longrightarrow> parse_elements n s acc \<noteq> OutOfFuel"
    and mems: "\<And>s acc. 2 * length s + 1 < n \<Longrightarrow> parse_members n s acc \<noteq> OutOfFuel"
    by blast+
  have "parse_value (Suc n) s \<noteq> OutOfFuel" if fuel: "2 * length s < Suc n" for s
  proof (cases s)
    case Nil
    then show ?thesis by simp
  next
    case (Cons c cs)
    have inner: "2 * length (d # ds) + 1 < n" if "skip_ws cs = d # ds" for d ds
      using length_skip_ws [of cs] fuel Cons that by simp
    show ?thesis
      using Cons els [OF inner] mems [OF inner]
      by (auto simp del: parse_chars.simps split: option.splits list.splits)
  qed
  moreover have "parse_elements (Suc n) s acc \<noteq> OutOfFuel"
    if fuel: "2 * length s + 1 < Suc n" for s acc
  proof (cases "parse_value n s")
    case (Parsed v r)
    then have shorter: "length r < length s"
      by (rule parse_value_shorter)
    have "parse_elements n (skip_ws ds) acc' \<noteq> OutOfFuel" if "skip_ws r = d # ds" for d ds acc'
    proof (rule els)
      show "2 * length (skip_ws ds) + 1 < n"
        using length_skip_ws [of ds] length_skip_ws [of r] that shorter fuel by simp
    qed
    with Parsed show ?thesis
      by (auto split: list.splits)
  next
    case Malformed
    then show ?thesis by simp
  next
    case OutOfFuel
    moreover have "parse_value n s \<noteq> OutOfFuel"
      using fuel by (intro val) simp
    ultimately show ?thesis by simp
  qed
  moreover have "parse_members (Suc n) s acc \<noteq> OutOfFuel"
    if fuel: "2 * length s + 1 < Suc n" for s acc
  proof -
    have "parse_members (Suc n) (c # cs) acc \<noteq> OutOfFuel"
      if s: "s = c # cs" and key: "parse_chars cs = Some (k, r)" and colon: "skip_ws r = d # ds"
      for c cs k r d ds
    proof -
      have r: "length r < length cs"
        using key by (rule parse_chars_shorter)
      have ds: "length (skip_ws ds) < length r"
        using length_skip_ws [of ds] length_skip_ws [of r] colon by simp
      have no_fuel: "parse_value n (skip_ws ds) \<noteq> OutOfFuel"
        using ds r s fuel by (intro val) simp
      show ?thesis
      proof (cases "parse_value n (skip_ws ds)")
        case (Parsed v r')
        then have r': "length r' < length (skip_ws ds)"
          by (rule parse_value_shorter)
        have "parse_members n (skip_ws es) acc' \<noteq> OutOfFuel" if "skip_ws r' = e # es"
          for e es acc'
        proof (rule mems)
          show "2 * length (skip_ws es) + 1 < n"
            using length_skip_ws [of es] length_skip_ws [of r'] that r' ds r s fuel by simp
        qed
        with Parsed key colon show ?thesis
          by (auto simp del: parse_chars.simps split: list.splits)
      next
        case Malformed
        with key colon show ?thesis by (auto simp del: parse_chars.simps)
      next
        case OutOfFuel
        with no_fuel show ?thesis by simp
      qed
    qed
    then have step: "parse_members (Suc n) (c # cs) acc \<noteq> OutOfFuel"
      if "s = c # cs" "parse_chars cs = Some (k, r)" "skip_ws r = d # ds" for c cs k r d ds
      using that by blast
    show ?thesis
    proof (cases s)
      case Nil
      then show ?thesis by simp
    next
      case (Cons c cs)
      show ?thesis
      proof (cases "parse_chars cs")
        case None
        with Cons show ?thesis by (simp del: parse_chars.simps)
      next
        case (Some kr)
        then obtain k r where key: "parse_chars cs = Some (k, r)"
          by (cases kr) simp
        show ?thesis
        proof (cases "skip_ws r")
          case Nil
          with Cons key show ?thesis by (simp del: parse_chars.simps)
        next
          case colon: (Cons d ds)
          show ?thesis
            unfolding Cons using Cons key colon by (rule step)
        qed
      qed
    qed
  qed
  ultimately show ?case by blast
qed

lemma JSON_parse_fuel: "parse_text s \<noteq> OutOfFuel"
proof -
  have "2 * length (skip_ws s) < 2 * length s + 1"
    using length_skip_ws [of s] by simp
  then show ?thesis
    unfolding parse_text_def using parse_fuel_all [of "2 * length s + 1"] by blast
qed

subsection \<open>A profile survives writing and reading\<close>

lemma js_punctuation:
  "js ''{'' = [0x7B]" "js ''}'' = [0x7D]" "js '':'' = [0x3A]" "js '','' = [0x2C]"
  by (simp_all add: js_def)

lemma skip_ws_solid: "\<not> is_json_ws c \<Longrightarrow> skip_ws (c # s) = c # s"
  by (simp add: skip_ws_def)

lemma solid_punctuation:
  "\<not> is_json_ws 0x22" "\<not> is_json_ws 0x3A" "\<not> is_json_ws 0x2C" "\<not> is_json_ws 0x7D"
  "\<not> is_json_ws 0x7B"
  by (simp_all add: is_json_ws_def)

lemma parse_value_string:
  "parse_value (Suc n) (0x22 # quote_chars v @ 0x22 # r) = Parsed (JString v) r"
  by (simp add: parse_chars_quote_chars del: parse_chars.simps)

lemma parse_members_more:
  "parse_members (Suc (Suc n))
     (0x22 # quote_chars k @ 0x22 # 0x3A # 0x22 # quote_chars v @ 0x22 # 0x2C # rest) acc =
   parse_members (Suc n) (skip_ws rest) (acc @ [(k, JString v)])"
  by (subst parse_members.simps)
     (simp add: parse_chars_quote_chars skip_ws_solid solid_punctuation parse_value_string
        del: parse_chars.simps parse_value.simps parse_members.simps)

lemma parse_members_last:
  "parse_members (Suc (Suc n))
     (0x22 # quote_chars k @ 0x22 # 0x3A # 0x22 # quote_chars v @ 0x22 # 0x7D # rest) acc =
   Parsed (JObject (acc @ [(k, JString v)])) rest"
  by (subst parse_members.simps)
     (simp add: parse_chars_quote_chars skip_ws_solid solid_punctuation parse_value_string
        del: parse_chars.simps parse_value.simps parse_members.simps)

lemma JSON_stringify_text:
  "JSON_stringify p =
     0x7B # 0x22 # quote_chars (js ''id'') @ 0x22 # 0x3A # 0x22 # quote_chars (f_id p) @ 0x22 #
     0x2C # 0x22 # quote_chars (js ''name'') @ 0x22 # 0x3A # 0x22 # quote_chars (f_name p) @ 0x22 #
     0x2C # 0x22 # quote_chars (js ''company'') @ 0x22 # 0x3A # 0x22 # quote_chars (f_company p) @ 0x22 #
     0x2C # 0x22 # quote_chars (js ''email'') @ 0x22 # 0x3A # 0x22 # quote_chars (f_email p) @ 0x22 #
     (case f_website p of
        None \<Rightarrow> [0x7D]
      | Some w \<Rightarrow>
          0x2C # 0x22 # quote_chars (js ''website'') @ 0x22 # 0x3A # 0x22 # quote_chars w @
          [0x22, 0x7D])"
  by (simp add: JSON_stringify_def QuoteJSONString_def js_punctuation split: option.split)

lemma parse_value_profile:
  "parse_value (Suc (Suc (Suc (Suc (Suc (Suc (Suc n))))))) (JSON_stringify p @ r) =
     Parsed (JObject (profile_members p)) r"
proof (cases "f_website p")
  case None
  then show ?thesis
    by (subst parse_value.simps)
       (simp add: JSON_stringify_text skip_ws_solid solid_punctuation parse_members_more
          parse_members_last profile_members_def
          del: parse_chars.simps parse_value.simps parse_members.simps)
next
  case (Some w)
  then show ?thesis
    by (subst parse_value.simps)
       (simp add: JSON_stringify_text skip_ws_solid solid_punctuation parse_members_more
          parse_members_last profile_members_def
          del: parse_chars.simps parse_value.simps parse_members.simps)
qed

lemma length_JSON_stringify: "\<exists>m. length (JSON_stringify p) = 3 + m"
proof -
  have "3 \<le> length (JSON_stringify p)"
    by (simp add: JSON_stringify_text)
  then show ?thesis
    by (rule le_Suc_ex)
qed

lemma parse_text_profile: "parse_text (JSON_stringify p) = Parsed (JObject (profile_members p)) []"
proof -
  obtain m where m: "length (JSON_stringify p) = 3 + m"
    using length_JSON_stringify by blast
  have fuel: "2 * length (JSON_stringify p) + 1 =
      Suc (Suc (Suc (Suc (Suc (Suc (Suc (2 * m)))))))"
    by (simp add: m)
  have solid: "skip_ws (JSON_stringify p) = JSON_stringify p"
    by (simp add: JSON_stringify_text skip_ws_solid solid_punctuation)
  have "parse_text (JSON_stringify p) =
      parse_value (2 * length (JSON_stringify p) + 1) (JSON_stringify p @ [])"
    by (simp only: parse_text_def solid append_Nil2)
  also have "\<dots> = Parsed (JObject (profile_members p)) []"
    by (simp only: fuel parse_value_profile)
  finally show ?thesis .
qed

lemma JSON_parse_stringify: "JSON_parse (JSON_stringify p) = Inr (JObject (profile_members p))"
  by (simp add: JSON_parse_def parse_text_profile skip_ws_def)

lemma js_keys_distinct:
  "js ''id'' \<noteq> js ''name''" "js ''id'' \<noteq> js ''company''" "js ''id'' \<noteq> js ''email''"
  "js ''id'' \<noteq> js ''website''" "js ''name'' \<noteq> js ''company''" "js ''name'' \<noteq> js ''email''"
  "js ''name'' \<noteq> js ''website''" "js ''company'' \<noteq> js ''email''"
  "js ''company'' \<noteq> js ''website''" "js ''email'' \<noteq> js ''website''"
  by (simp_all add: js_def)

lemma as_founder_profile_members: "as_founder (JObject (profile_members p)) = Some (Some p)"
  by (cases p)
     (simp add: as_founder_def property_def profile_members_def js_keys_distinct
        js_keys_distinct [symmetric] split: option.split)

lemma JSON_stringify_example:
  \<open>JSON_stringify example_profile =
     js ''{"id":"local-founder","name":"Rohan","company":"Acme","email":"r@acme.com"}''\<close>
  by (simp add: JSON_stringify_text example_profile_def js_def quote_unit_def
      is_high_surrogate_def is_low_surrogate_def)

lemma property_profile_members:
  "property (profile_members p) ''id'' = Some (JString (f_id p))"
  "property (profile_members p) ''name'' = Some (JString (f_name p))"
  "property (profile_members p) ''company'' = Some (JString (f_company p))"
  "property (profile_members p) ''email'' = Some (JString (f_email p))"
  "property (profile_members p) ''website'' = map_option JString (f_website p)"
  by (simp_all add: property_def profile_members_def js_keys_distinct
      js_keys_distinct [symmetric] split: option.split)

lemma JSON_stringify_nonempty: "JSON_stringify p \<noteq> []"
  by (simp add: JSON_stringify_text)

lemma JSON_parse_broken: "JSON_parse (js ''{broken'') = Inl SyntaxError"
  by code_simp

lemma JSON_parse_garbage: "JSON_parse (js ''not json'') = Inl SyntaxError"
  by code_simp

subsection \<open>The state of the component\<close>

lemmas config_ops =
  setFounder_def setForm_def setStudents_def setIsSubmitting_def localStorage_getItem_def
  localStorage_setItem_def navigate_def alert_def record_effect_def try_finally_def

lemma truthy_canSubmit:
  "truthy (canSubmit f) \<longleftrightarrow>
     trim (form_name f) \<noteq> [] \<and> trim (form_company f) \<noteq> [] \<and> trim (form_email f) \<noteq> []"
  by (simp add: canSubmit_def js_and_def truthy_def)

lemma handleSignup_state:
  "snd (snd (handleSignup user c)) =
     (if \<not> truthy (canSubmit (form (snd c))) then snd c
      else if accepts (localStorage (fst c)) profile_key
                (JSON_stringify (make_profile user (form (snd c))))
      then (snd c)\<lparr>founder := Some (make_profile user (form (snd c))), isSubmitting := False\<rparr>
      else (snd c)\<lparr>isSubmitting := False\<rparr>)"
  by (simp add: handleSignup_def signup_body_def config_ops setItem_def Let_def)

lemma handleSignup_error:
  "fst (handleSignup user c) =
     (if truthy (canSubmit (form (snd c))) \<and>
         \<not> accepts (localStorage (fst c)) profile_key
             (JSON_stringify (make_profile user (form (snd c))))
      then Some QuotaExceededError else None)"
  by (simp add: handleSignup_def signup_body_def config_ops setItem_def Let_def)

lemma handleSignup_log:
  "log (fst (snd (handleSignup user c))) =
     (if \<not> truthy (canSubmit (form (snd c))) then log (fst c)
      else log (fst c) @
        [SetIsSubmitting True,
         SetItem profile_key (JSON_stringify (make_profile user (form (snd c))))] @
        (if accepts (localStorage (fst c)) profile_key
              (JSON_stringify (make_profile user (form (snd c))))
         then [SetFounder (Some (make_profile user (form (snd c))))] else []) @
        [SetIsSubmitting False])"
  by (simp add: handleSignup_def signup_body_def config_ops setItem_def Let_def)

lemma handleSignup_storage:
  "localStorage (fst (snd (handleSignup user c))) =
     (if truthy (canSubmit (form (snd c))) \<and>
         accepts (localStorage (fst c)) profile_key
           (JSON_stringify (make_profile user (form (snd c))))
      then (localStorage (fst c))
             \<lparr>items := (items (localStorage (fst c)))
                (profile_key \<mapsto> JSON_stringify (make_profile user (form (snd c))))\<rparr>
      else localStorage (fst c))"
  by (simp add: handleSignup_def signup_body_def config_ops setItem_def Let_def)

lemma handleSignup_href:
  "location_href (fst (snd (handleSignup user c))) = location_href (fst c)"
  by (simp add: handleSignup_def signup_body_def config_ops setItem_def Let_def)

lemma handleSignup_stored:
  assumes "truthy (canSubmit (form (snd c)))" "fst (handleSignup user c) = None"
  shows "getItem (localStorage (fst (snd (handleSignup user c)))) profile_key =
           Some (JSON_stringify (make_profile user (form (snd c))))"
    and "founder (snd (snd (handleSignup user c))) = Some (make_profile user (form (snd c)))"
  using assms
  by (simp_all add: handleSignup_error handleSignup_storage handleSignup_state getItem_def
      split: if_splits)

lemma mount_stored_profile:
  assumes "getItem (localStorage w) profile_key = Some (JSON_stringify p)"
  shows "mount (w, st) =
     Mounted (setStudents mock (setFounder (Some p) (record_effect (GetItem profile_key) w, st)))"
  using assms
  by (simp add: mount_def localStorage_getItem_def truthy_def JSON_stringify_nonempty
      JSON_parse_stringify as_founder_profile_members)

lemma handleSignup_run:
  "fst (handleSignup user c) = None \<Longrightarrow> handleSignup user c = (None, snd (handleSignup user c))"
  by (metis prod.collapse)

lemma mount_completes:
  assumes "case getItem (localStorage (fst c)) profile_key of
             None \<Rightarrow> True
           | Some s \<Rightarrow> s = [] \<or> (\<exists>v p. JSON_parse s = Inr v \<and> as_founder v = Some p)"
  shows "\<exists>c'. mount c = Mounted c'"
  using assms
  by (auto simp: mount_def localStorage_getItem_def truthy_def split: option.splits)

lemma mount_Mounted_state:
  assumes "mount c = Mounted c'"
  shows "students (snd c') = mock \<and> isSubmitting (snd c') = isSubmitting (snd c)
         \<and> form (snd c') = form (snd c)"
  using assms
  by (auto simp: mount_def config_ops split: option.splits if_splits sum.splits)

lemma fire_students: "students (snd (fire ev c)) = students (snd c)"
  by (cases ev) (simp_all add: fire_def handleSignup_state handleContact_def handleHire_def config_ops)

lemma fire_isSubmitting:
  "\<not> isSubmitting (snd c) \<Longrightarrow> \<not> isSubmitting (snd (fire ev c))"
  by (cases ev) (simp_all add: fire_def handleSignup_state handleContact_def handleHire_def config_ops)

lemma running_invariant:
  "running c \<Longrightarrow> students (snd c) = mock \<and> \<not> isSubmitting (snd c)"
proof (induction rule: running.induct)
  case (after_mount w c)
  then show ?case
    using mount_Mounted_state [of "(w, initial_state)" c] by (simp add: initial_state_def)
next
  case (after_event c ev)
  then show ?case by (simp add: fire_students fire_isSubmitting)
qed

lemma reachable_not_submitting: "reachable c \<Longrightarrow> \<not> isSubmitting (snd c)"
  by (auto simp: reachable_def running_invariant initial_state_def)


subsection \<open>The form\<close>

lemma mount_example_world: "mount (example_world, initial_state) = Mounted example_mounted"
  by (simp add: mount_def example_mounted_def example_world_def localStorage_getItem_def getItem_def)

lemma running_example_mounted: "running example_mounted"
  using mount_example_world by (rule running.after_mount)

lemma running_example_filled: "running example_filled"
  unfolding example_filled_def by (intro running.after_event running_example_mounted)

lemma running_example_blank: "running example_blank"
  unfolding example_blank_def by (intro running.after_event running_example_mounted)

lemma form_example_filled:
  "form (snd example_filled) =
     \<lparr>form_name = js ''Rohan'', form_company = js ''Acme'', form_email = js ''r@acme.com'',
      form_website = []\<rparr>"
  by (simp add: example_filled_def example_mounted_def fire_def config_ops initial_state_def)

lemma form_example_blank:
  "form (snd example_blank) =
     \<lparr>form_name = js ''   '', form_company = js ''Acme'', form_email = js ''r@acme.com'',
      form_website = []\<rparr>"
  by (simp add: example_blank_def example_mounted_def fire_def config_ops initial_state_def)

lemma trim_examples:
  "trim (js ''Rohan'') = js ''Rohan''" "trim (js ''Acme'') = js ''Acme''"
  "trim (js ''r@acme.com'') = js ''r@acme.com''" "trim (js ''   '') = []" "trim [] = []"
  by (simp_all add: trim_def js_def is_whitespace_def)

lemma js_nonempty: "js (x # xs) \<noteq> []"
  by (simp add: js_def)

text \<open>
  Claim C1. In every configuration the component can be in, the submit button is
  enabled exactly when name, company and email are all non-empty after trimming, that
  is, when none of them is empty or made of white space only; a change of the website
  field does not change that; and where the button is disabled, the submit handler
  returns at once and leaves everything as it was.
\<close>

theorem submit_enabled_iff_required_fields:
  assumes "reachable c"
  shows "((\<not> submit_disabled (snd c)) \<longleftrightarrow>
            trim (form_name (form (snd c))) \<noteq> [] \<and> trim (form_company (form (snd c))) \<noteq> [] \<and>
            trim (form_email (form (snd c))) \<noteq> []) \<and>
         (submit_disabled (snd c) \<longleftrightarrow>
            (\<forall>x \<in> set (form_name (form (snd c))). is_whitespace x) \<or>
            (\<forall>x \<in> set (form_company (form (snd c))). is_whitespace x) \<or>
            (\<forall>x \<in> set (form_email (form (snd c))). is_whitespace x)) \<and>
         (submit_disabled (snd (fire (ChangeWebsite w) c)) \<longleftrightarrow> submit_disabled (snd c)) \<and>
         (submit_disabled (snd c) \<longrightarrow> handleSignup user c = (None, c))"
proof -
  have idle: "\<not> isSubmitting (snd c)"
    using assms by (rule reachable_not_submitting)
  have enabled: "(\<not> submit_disabled (snd c)) \<longleftrightarrow> truthy (canSubmit (form (snd c)))"
    using idle by (simp add: submit_disabled_def)
  have website: "canSubmit (form (snd (fire (ChangeWebsite w) c))) = canSubmit (form (snd c))"
    by (simp add: fire_def setForm_def canSubmit_def)
  have idle': "\<not> isSubmitting (snd (fire (ChangeWebsite w) c))"
    using idle by (rule fire_isSubmitting)
  show ?thesis
    using enabled idle idle' website
    by (auto simp: truthy_canSubmit trim_empty_iff submit_disabled_def handleSignup_def)
qed

theorem submit_enabled_iff_required_fields_witness:
  "reachable example_filled \<and> \<not> submit_disabled (snd example_filled) \<and>
   reachable example_blank \<and> submit_disabled (snd example_blank) \<and>
   handleSignup None example_blank = (None, example_blank)"
proof -
  have r1: "reachable example_filled"
    by (simp add: reachable_def running_example_filled)
  have r2: "reachable example_blank"
    by (simp add: reachable_def running_example_blank)
  have filled: "\<not> submit_disabled (snd example_filled)"
    using submit_enabled_iff_required_fields [OF r1, THEN conjunct1]
    by (simp add: form_example_filled trim_examples js_nonempty)
  have blank: "submit_disabled (snd example_blank)"
    using submit_enabled_iff_required_fields [OF r2, THEN conjunct1]
    by (simp add: form_example_blank trim_examples)
  have "handleSignup None example_blank = (None, example_blank)"
    using submit_enabled_iff_required_fields [OF r2, of "[]" None] blank by blast
  with r1 r2 filled blank show ?thesis by simp
qed



subsection \<open>The submit handler\<close>

text \<open>
  Claim C7. Whenever the submit handler passes its check, it sets the submitting flag,
  then writes to the store, then (only if the write did not throw) sets the founder,
  and last clears the flag: the flag is cleared whether or not the write threw, and
  whatever the body of a \<^verbatim>\<open>try\<close> with this \<^verbatim>\<open>finally\<close> does.
\<close>

theorem submitting_flag_bracket:
  assumes "truthy (canSubmit (form (snd c)))"
  shows "log (fst (snd (handleSignup user c))) =
           log (fst c) @
           [SetIsSubmitting True,
            SetItem profile_key (JSON_stringify (make_profile user (form (snd c))))] @
           (if fst (handleSignup user c) = None
            then [SetFounder (Some (make_profile user (form (snd c))))] else []) @
           [SetIsSubmitting False] \<and>
         \<not> isSubmitting (snd (snd (handleSignup user c))) \<and>
         (fst (handleSignup user c) = None \<longleftrightarrow>
            accepts (localStorage (fst c)) profile_key
              (JSON_stringify (make_profile user (form (snd c))))) \<and>
         \<not> isSubmitting (snd (snd (try_finally body (setIsSubmitting False) c0))) \<and>
         last (log (fst (snd (try_finally body (setIsSubmitting False) c0)))) =
           SetIsSubmitting False"
proof -
  have "\<not> isSubmitting (snd (snd (try_finally body (setIsSubmitting False) c0)))"
    by (simp add: try_finally_def setIsSubmitting_def split: prod.splits)
  moreover have "last (log (fst (snd (try_finally body (setIsSubmitting False) c0)))) =
           SetIsSubmitting False"
    by (simp add: try_finally_def setIsSubmitting_def record_effect_def split: prod.splits)
  ultimately show ?thesis
    using assms by (simp add: handleSignup_log handleSignup_state handleSignup_error)
qed

lemma canSubmit_example_filled: "truthy (canSubmit (form (snd example_filled)))"
  by (simp add: truthy_canSubmit form_example_filled trim_examples js_nonempty)

theorem submitting_flag_bracket_witness:
  "truthy (canSubmit (form (snd example_filled))) \<and>
   fst (handleSignup None example_filled) = None \<and>
   \<not> isSubmitting (snd (snd (handleSignup None example_filled))) \<and>
   truthy (canSubmit (form (snd example_rejecting))) \<and>
   fst (handleSignup None example_rejecting) = Some QuotaExceededError \<and>
   \<not> isSubmitting (snd (snd (handleSignup None example_rejecting))) \<and>
   log (fst (snd (handleSignup None example_rejecting))) =
     log (fst example_rejecting) @
     [SetIsSubmitting True,
      SetItem profile_key (JSON_stringify (make_profile None (form (snd example_rejecting)))),
      SetIsSubmitting False]"
proof -
  have filled: "truthy (canSubmit (form (snd example_filled)))"
    by (rule canSubmit_example_filled)
  then have rejecting: "truthy (canSubmit (form (snd example_rejecting)))"
    by (simp add: example_rejecting_def)
  have accepted: "accepts (localStorage (fst example_filled)) k v" for k v
    by (simp add: example_filled_def example_mounted_def fire_def config_ops example_world_def)
  have rejected: "\<not> accepts (localStorage (fst example_rejecting)) k v" for k v
    by (simp add: example_rejecting_def)
  note ok = submitting_flag_bracket [OF filled, of None]
  note failed = submitting_flag_bracket [OF rejecting, of None]
  have "fst (handleSignup None example_filled) = None"
    using ok accepted by blast
  moreover have "\<not> isSubmitting (snd (snd (handleSignup None example_filled)))"
    using ok by blast
  moreover have err: "fst (handleSignup None example_rejecting) \<noteq> None"
    using failed rejected by blast
  moreover have "\<not> isSubmitting (snd (snd (handleSignup None example_rejecting)))"
    using failed by blast
  moreover have "log (fst (snd (handleSignup None example_rejecting))) =
     log (fst example_rejecting) @
     [SetIsSubmitting True,
      SetItem profile_key (JSON_stringify (make_profile None (form (snd example_rejecting)))),
      SetIsSubmitting False]"
    using failed err by simp
  moreover have "fst (handleSignup None example_rejecting) = Some QuotaExceededError"
    using err by (simp add: handleSignup_error split: if_splits)
  ultimately show ?thesis
    using filled rejecting by simp
qed

lemma trim_website_example: "trim (js '' https://acme.com '') = js ''https://acme.com''"
  by (simp add: trim_def js_def is_whitespace_def)

lemma form_example_with_website:
  "form (snd example_with_website) =
     \<lparr>form_name = js ''Rohan'', form_company = js ''Acme'', form_email = js ''r@acme.com'',
      form_website = js '' https://acme.com ''\<rparr>"
  by (simp add: example_with_website_def fire_def setForm_def form_example_filled)

lemma accepts_example_filled: "accepts (localStorage (fst example_filled)) k v"
  by (simp add: example_filled_def example_mounted_def fire_def config_ops example_world_def)

lemma accepts_example_with_website: "accepts (localStorage (fst example_with_website)) k v"
  by (simp add: example_with_website_def fire_def setForm_def record_effect_def
      accepts_example_filled)

lemma canSubmit_example_with_website: "truthy (canSubmit (form (snd example_with_website)))"
  by (simp add: truthy_canSubmit form_example_with_website trim_examples js_nonempty)

lemma make_profile_example_filled:
  "make_profile None (form (snd example_filled)) = example_profile"
  by (simp add: make_profile_def form_example_filled trim_examples profile_id_def
      or_undefined_def truthy_def example_profile_def)

lemma make_profile_example_with_website:
  "make_profile None (form (snd example_with_website)) =
     example_profile\<lparr>f_website := Some (js ''https://acme.com'')\<rparr>"
  by (simp add: make_profile_def form_example_with_website trim_examples trim_website_example
      profile_id_def or_undefined_def truthy_def example_profile_def js_nonempty)

text \<open>
  Claim C2, as amended. A submission that passes the check and whose write the store
  accepts builds a profile with the trimmed name, company and email; its website is
  missing when the trimmed input is empty and is the trimmed input otherwise; its id is
  the identifier of the user, or \<^verbatim>\<open>local-founder\<close> when there is no user or the
  identifier is empty. The text of that profile is stored under the profile key, reads
  back as an object with exactly these properties, and the candidate list is rendered.
\<close>

theorem signup_persists_profile:
  assumes "truthy (canSubmit (form (snd c)))" and "handleSignup user c = (None, c')"
    and "p = make_profile user (form (snd c))"
  shows "f_name p = trim (form_name (form (snd c))) \<and>
         f_company p = trim (form_company (form (snd c))) \<and>
         f_email p = trim (form_email (form (snd c))) \<and>
         f_website p =
           (if trim (form_website (form (snd c))) = [] then None
            else Some (trim (form_website (form (snd c))))) \<and>
         f_id p =
           (case user of
              None \<Rightarrow> js ''local-founder''
            | Some u \<Rightarrow> if user_id u = [] then js ''local-founder'' else user_id u) \<and>
         getItem (localStorage (fst c')) profile_key = Some (JSON_stringify p) \<and>
         JSON_parse (JSON_stringify p) = Inr (JObject (profile_members p)) \<and>
         property (profile_members p) ''id'' = Some (JString (f_id p)) \<and>
         property (profile_members p) ''name'' = Some (JString (f_name p)) \<and>
         property (profile_members p) ''company'' = Some (JString (f_company p)) \<and>
         property (profile_members p) ''email'' = Some (JString (f_email p)) \<and>
         property (profile_members p) ''website'' = map_option JString (f_website p) \<and>
         founder (snd c') = Some p \<and>
         render (snd c') = CandidateListView"
proof -
  have ok: "fst (handleSignup user c) = None" and c': "c' = snd (handleSignup user c)"
    using assms(2) by simp_all
  have stored: "getItem (localStorage (fst c')) profile_key = Some (JSON_stringify p)"
    and created: "founder (snd c') = Some p"
    unfolding c' assms(3) using assms(1) ok by (rule handleSignup_stored)+
  have fields: "f_name p = trim (form_name (form (snd c)))"
    "f_company p = trim (form_company (form (snd c)))"
    "f_email p = trim (form_email (form (snd c)))"
    "f_website p =
           (if trim (form_website (form (snd c))) = [] then None
            else Some (trim (form_website (form (snd c)))))"
    by (simp_all add: assms(3) make_profile_def or_undefined_def truthy_def)
  have ident: "f_id p =
           (case user of
              None \<Rightarrow> js ''local-founder''
            | Some u \<Rightarrow> if user_id u = [] then js ''local-founder'' else user_id u)"
    by (simp add: assms(3) make_profile_def profile_id_def js_or_def truthy_def
        split: option.split)
  have "render (snd c') = CandidateListView"
    by (simp add: render_def created)
  then show ?thesis
    using stored created fields ident
    by (simp only: JSON_parse_stringify property_profile_members simp_thms)
qed

theorem signup_persists_profile_witness:
  "truthy (canSubmit (form (snd example_filled))) \<and>
   fst (handleSignup None example_filled) = None \<and>
   founder (snd (snd (handleSignup None example_filled))) = Some example_profile \<and>
   getItem (localStorage (fst (snd (handleSignup None example_filled)))) profile_key =
     Some (JSON_stringify example_profile) \<and>
   property (profile_members example_profile) ''website'' = None \<and>
   render (snd (snd (handleSignup None example_filled))) = CandidateListView \<and>
   truthy (canSubmit (form (snd example_with_website))) \<and>
   fst (handleSignup None example_with_website) = None \<and>
   map_option f_website (founder (snd (snd (handleSignup None example_with_website)))) =
     Some (Some (js ''https://acme.com'')) \<and>
   property (profile_members (example_profile\<lparr>f_website := Some (js ''https://acme.com'')\<rparr>))
     ''website'' = Some (JString (js ''https://acme.com''))"
proof -
  have ok: "fst (handleSignup None example_filled) = None"
    by (simp add: handleSignup_error accepts_example_filled)
  have ok': "fst (handleSignup None example_with_website) = None"
    by (simp add: handleSignup_error accepts_example_with_website)
  note blank =
    signup_persists_profile [OF canSubmit_example_filled handleSignup_run [OF ok]
      make_profile_example_filled [symmetric]]
  note filled =
    signup_persists_profile [OF canSubmit_example_with_website handleSignup_run [OF ok']
      make_profile_example_with_website [symmetric]]
  have "property (profile_members example_profile) ''website'' =
      map_option JString (f_website example_profile)"
    using blank by blast
  then have absent: "property (profile_members example_profile) ''website'' = None"
    by (simp add: example_profile_def)
  have "property (profile_members (example_profile\<lparr>f_website := Some (js ''https://acme.com'')\<rparr>))
      ''website'' =
      map_option JString (f_website (example_profile\<lparr>f_website := Some (js ''https://acme.com'')\<rparr>))"
    using filled by blast
  then have present: "property (profile_members (example_profile\<lparr>f_website := Some (js ''https://acme.com'')\<rparr>))
     ''website'' = Some (JString (js ''https://acme.com''))"
    by simp
  have "founder (snd (snd (handleSignup None example_with_website))) =
      Some (example_profile\<lparr>f_website := Some (js ''https://acme.com'')\<rparr>)"
    using filled by blast
  then have website: "map_option f_website (founder (snd (snd (handleSignup None example_with_website)))) =
     Some (Some (js ''https://acme.com''))"
    by simp
  have "founder (snd (snd (handleSignup None example_filled))) = Some example_profile"
    "getItem (localStorage (fst (snd (handleSignup None example_filled)))) profile_key =
       Some (JSON_stringify example_profile)"
    "render (snd (snd (handleSignup None example_filled))) = CandidateListView"
    using blank by blast+
  then show ?thesis
    using absent present website ok ok' canSubmit_example_filled canSubmit_example_with_website
    by simp
qed

text \<open>
  Claim C2 as it stands fails twice: a user whose identifier is the empty string gets
  the placeholder id, and a submission whose write the store refuses stores nothing and
  stays on the form.
\<close>

theorem signup_id_and_write_counterexample:
  "truthy (canSubmit (form (snd example_filled))) \<and>
   fst (handleSignup (Some example_empty_id_user) example_filled) = None \<and>
   map_option f_id (founder (snd (snd (handleSignup (Some example_empty_id_user) example_filled)))) =
     Some (js ''local-founder'') \<and>
   user_id example_empty_id_user \<noteq> js ''local-founder'' \<and>
   truthy (canSubmit (form (snd example_rejecting))) \<and>
   fst (handleSignup None example_rejecting) = Some QuotaExceededError \<and>
   founder (snd (snd (handleSignup None example_rejecting))) = None \<and>
   render (snd (snd (handleSignup None example_rejecting))) = FormView \<and>
   getItem (localStorage (fst (snd (handleSignup None example_rejecting)))) profile_key = None"
proof -
  have rejecting: "truthy (canSubmit (form (snd example_rejecting)))"
    using canSubmit_example_filled by (simp add: example_rejecting_def)
  have rejected: "\<not> accepts (localStorage (fst example_rejecting)) k v" for k v
    by (simp add: example_rejecting_def)
  have unset: "founder (snd example_rejecting) = None"
    by (simp add: example_rejecting_def example_filled_def example_mounted_def fire_def
        config_ops initial_state_def)
  have "profile_id (Some example_empty_id_user) = js ''local-founder''"
    by (simp add: profile_id_def example_empty_id_user_def js_or_def truthy_def)
  then have "map_option f_id (founder (snd (snd (handleSignup (Some example_empty_id_user) example_filled)))) =
     Some (js ''local-founder'')"
    by (simp add: handleSignup_state canSubmit_example_filled accepts_example_filled
        make_profile_def)
  moreover have "user_id example_empty_id_user \<noteq> js ''local-founder''"
    by (simp add: example_empty_id_user_def js_def)
  moreover have "founder (snd (snd (handleSignup None example_rejecting))) = None"
    by (simp add: handleSignup_state rejecting rejected unset)
  moreover have "getItem (localStorage (fst (snd (handleSignup None example_rejecting)))) profile_key = None"
    by (simp add: handleSignup_storage rejecting rejected getItem_def example_rejecting_def)
  ultimately show ?thesis
    using canSubmit_example_filled rejecting rejected
    by (simp add: handleSignup_error accepts_example_filled render_def)
qed

lemma mount_stored_founder:
  assumes "mount c = Mounted c'" "founder (snd c) = None" "founder (snd c') = Some p"
  shows "\<exists>text v. getItem (localStorage (fst c')) profile_key = Some text \<and>
           JSON_parse text = Inr v \<and> as_founder v = Some (Some p)"
  using assms
  by (auto simp: mount_def config_ops split: option.splits if_splits sum.splits)

lemma fire_stored_founder:
  assumes "\<And>p. founder (snd c) = Some p \<Longrightarrow>
             \<exists>text v. getItem (localStorage (fst c)) profile_key = Some text \<and>
               JSON_parse text = Inr v \<and> as_founder v = Some (Some p)"
    and "founder (snd (fire ev c)) = Some p"
  shows "\<exists>text v. getItem (localStorage (fst (fire ev c))) profile_key = Some text \<and>
           JSON_parse text = Inr v \<and> as_founder v = Some (Some p)"
proof (cases ev)
  case (Submit user)
  show ?thesis
  proof (cases "truthy (canSubmit (form (snd c))) \<and>
      accepts (localStorage (fst c)) profile_key
        (JSON_stringify (make_profile user (form (snd c))))")
    case True
    then show ?thesis
      using assms(2)
      by (simp add: Submit fire_def handleSignup_state handleSignup_storage
          getItem_def JSON_parse_stringify as_founder_profile_members)
  next
    case False
    then show ?thesis
      using assms
      by (auto simp: Submit fire_def handleSignup_state handleSignup_storage
          split: if_splits)
  qed
qed (use assms in \<open>auto simp: fire_def config_ops handleContact_def handleHire_def\<close>)

lemma running_stored_founder:
  "running c \<Longrightarrow> founder (snd c) = Some p \<Longrightarrow>
     \<exists>text v. getItem (localStorage (fst c)) profile_key = Some text \<and>
       JSON_parse text = Inr v \<and> as_founder v = Some (Some p)"
proof (induction arbitrary: p rule: running.induct)
  case (after_mount w c)
  then show ?case
    using mount_stored_founder [of "(w, initial_state)" c p] by (simp add: initial_state_def)
next
  case (after_event c ev)
  then show ?case
    using fire_stored_founder [of c ev p] by blast
qed

text \<open>
  Claim C10. After a successful submission, the text stored under the profile key parses,
  and read at the declared type it is the founder profile the component holds; a later
  mount on that store loads the same profile. More generally, whenever a running
  component holds a founder profile, the text stored under the profile key reads back
  as that profile.
\<close>

theorem stored_profile_round_trip:
  assumes "truthy (canSubmit (form (snd c)))" and "handleSignup user c = (None, c')"
  shows "getItem (localStorage (fst c')) profile_key =
           Some (JSON_stringify (make_profile user (form (snd c)))) \<and>
         founder (snd c') = Some (make_profile user (form (snd c))) \<and>
         (\<exists>v. JSON_parse (JSON_stringify (make_profile user (form (snd c)))) = Inr v \<and>
              as_founder v = Some (founder (snd c'))) \<and>
         (\<exists>c''. mount (fst c', initial_state) = Mounted c'' \<and>
              founder (snd c'') = founder (snd c')) \<and>
         (running d \<longrightarrow> founder (snd d) = Some q \<longrightarrow>
            (\<exists>text v. getItem (localStorage (fst d)) profile_key = Some text \<and>
               JSON_parse text = Inr v \<and> as_founder v = Some (founder (snd d))))"
proof -
  have ok: "fst (handleSignup user c) = None" and c': "c' = snd (handleSignup user c)"
    using assms(2) by simp_all
  have stored: "getItem (localStorage (fst c')) profile_key =
           Some (JSON_stringify (make_profile user (form (snd c))))"
    and created: "founder (snd c') = Some (make_profile user (form (snd c)))"
    unfolding c' using assms(1) ok by (rule handleSignup_stored)+
  have "founder (snd (setStudents mock (setFounder (Some (make_profile user (form (snd c))))
      (record_effect (GetItem profile_key) (fst c'), initial_state)))) = founder (snd c')"
    by (simp add: created setStudents_def setFounder_def)
  then have "\<exists>c''. mount (fst c', initial_state) = Mounted c'' \<and>
      founder (snd c'') = founder (snd c')"
    using mount_stored_profile [OF stored, of initial_state] by simp
  moreover have "running d \<longrightarrow> founder (snd d) = Some q \<longrightarrow>
            (\<exists>text v. getItem (localStorage (fst d)) profile_key = Some text \<and>
               JSON_parse text = Inr v \<and> as_founder v = Some (founder (snd d)))"
    using running_stored_founder [of d q] by auto
  ultimately show ?thesis
    using stored created by (simp add: JSON_parse_stringify as_founder_profile_members)
qed

theorem stored_profile_round_trip_witness:
  "truthy (canSubmit (form (snd example_filled))) \<and>
   fst (handleSignup None example_filled) = None \<and>
   (\<exists>v. JSON_parse (JSON_stringify (make_profile None (form (snd example_filled)))) = Inr v \<and>
        as_founder v = Some (founder (snd (snd (handleSignup None example_filled))))) \<and>
   founder (snd (snd (handleSignup None example_filled))) = Some example_profile \<and>
   running (fire (Submit None) example_filled) \<and>
   founder (snd (fire (Submit None) example_filled)) = Some example_profile \<and>
   (\<exists>text v. getItem (localStorage (fst (fire (Submit None) example_filled))) profile_key =
        Some text \<and>
      JSON_parse text = Inr v \<and> as_founder v = Some (Some example_profile))"
proof -
  have ok: "fst (handleSignup None example_filled) = None"
    by (simp add: handleSignup_error accepts_example_filled)
  have profile: "make_profile None (form (snd example_filled)) = example_profile"
    by (rule make_profile_example_filled)
  have later: "running (fire (Submit None) example_filled)"
    using running_example_filled by (rule running.after_event)
  note facts =
    stored_profile_round_trip [OF canSubmit_example_filled handleSignup_run [OF ok],
      where d = "fire (Submit None) example_filled" and q = example_profile]
  have created: "founder (snd (fire (Submit None) example_filled)) = Some example_profile"
    using facts by (simp add: fire_def profile)
  have "\<exists>text v. getItem (localStorage (fst (fire (Submit None) example_filled))) profile_key =
        Some text \<and>
      JSON_parse text = Inr v \<and> as_founder v = Some (Some example_profile)"
    using facts later created by auto
  moreover have "\<exists>v. JSON_parse (JSON_stringify (make_profile None (form (snd example_filled)))) =
        Inr v \<and>
      as_founder v = Some (founder (snd (snd (handleSignup None example_filled))))"
    using facts by blast
  moreover have "founder (snd (snd (handleSignup None example_filled))) = Some example_profile"
    using facts by (simp add: profile)
  ultimately show ?thesis
    using canSubmit_example_filled ok later created by blast
qed

subsection \<open>The two views\<close>








subsection \<open>The mount effect\<close>

lemma JSON_parse_number: "JSON_parse (js ''123'') = Inr (JNumber (js ''123''))"
  by code_simp

lemma mount_throws_iff:
  "(\<exists>e c1. mount c = Threw e c1) \<longleftrightarrow>
     (\<exists>s e. getItem (localStorage (fst c)) profile_key = Some s \<and> s \<noteq> [] \<and>
        JSON_parse s = Inl e)"
  by (auto simp: mount_def localStorage_getItem_def truthy_def
      split: option.splits sum.splits)

lemma mount_parsed:
  assumes "getItem (localStorage (fst c)) profile_key = Some s" "s \<noteq> []" "JSON_parse s = Inr v"
  shows "(\<exists>c'. mount c = Mounted c' \<and> as_founder v = Some (founder (snd c')) \<and>
            students (snd c') = mock) \<or>
         (\<exists>u. mount c = IllTyped u \<and> founder (snd u) = v \<and> as_founder v = None \<and>
            students (snd u) = mock)"
  using assms
  by (cases "as_founder v")
     (simp_all add: mount_def localStorage_getItem_def truthy_def setStudents_def
        setFounder_def setFounder_parsed_def)

lemma mount_IllTyped_state:
  assumes "mount c = IllTyped u"
  shows "students (snd u) = mock \<and> isSubmitting (snd u) = isSubmitting (snd c) \<and>
         form (snd u) = form (snd c)"
  using assms
  by (auto simp: mount_def config_ops setFounder_parsed_def
      split: option.splits if_splits sum.splits)

text \<open>
  Claim C4, as amended. Whenever the mount effect completes without throwing, the list
  of students is the fixed list of the three entries u1, u2, u3, in that order. The
  effect throws exactly when the value stored under the profile key is not empty and
  \<^verbatim>\<open>JSON.parse\<close> rejects it; for every other store it completes and sets the list:
  when nothing or the empty string is stored, and for every stored text that parses,
  whether or not the parsed value is of the declared type. No event of a run at the
  declared type changes the list.
\<close>

theorem candidate_list_fixed:
  "(mount c = Mounted c' \<longrightarrow> students (snd c') = mock) \<and>
   (mount c = IllTyped u \<longrightarrow> students (snd u) = mock) \<and>
   ((\<exists>e c1. mount c = Threw e c1) \<longleftrightarrow>
      (\<exists>s e. getItem (localStorage (fst c)) profile_key = Some s \<and> s \<noteq> [] \<and>
         JSON_parse s = Inl e)) \<and>
   (\<forall>s v. getItem (localStorage (fst c)) profile_key = Some s \<and> s \<noteq> [] \<and>
        JSON_parse s = Inr v \<longrightarrow>
      (\<exists>c'. mount c = Mounted c' \<and> as_founder v = Some (founder (snd c')) \<and>
         students (snd c') = mock) \<or>
      (\<exists>u. mount c = IllTyped u \<and> founder (snd u) = v \<and> as_founder v = None \<and>
         students (snd u) = mock)) \<and>
   (getItem (localStorage (fst c)) profile_key = None \<or>
    getItem (localStorage (fst c)) profile_key = Some [] \<longrightarrow>
      (\<exists>c'. mount c = Mounted c' \<and> students (snd c') = mock)) \<and>
   (running c \<longrightarrow> students (snd c) = mock) \<and>
   students (snd (fire ev c)) = students (snd c) \<and>
   map s_id mock = [js ''u1'', js ''u2'', js ''u3'']"
proof -
  have "map s_id mock = [js ''u1'', js ''u2'', js ''u3'']"
    by (simp add: mock_def)
  moreover have "\<exists>c'. mount c = Mounted c' \<and> students (snd c') = mock"
    if "getItem (localStorage (fst c)) profile_key = None \<or>
        getItem (localStorage (fst c)) profile_key = Some []"
    using that mount_completes [of c] mount_Mounted_state [of c] by auto
  ultimately show ?thesis
    using mount_Mounted_state [of c c'] mount_IllTyped_state [of c u] running_invariant [of c]
      fire_students [of ev c] mount_throws_iff [of c] mount_parsed [of c]
    by blast
qed

theorem candidate_list_fixed_witness:
  "mount (example_world, initial_state) = Mounted example_mounted \<and>
   students (snd example_mounted) = mock \<and>
   getItem (localStorage (fst (example_world, initial_state))) profile_key = None \<and>
   getItem (localStorage (fst (example_number_world, initial_state))) profile_key =
     Some (js ''123'') \<and>
   JSON_parse (js ''123'') = Inr (JNumber (js ''123'')) \<and>
   (\<exists>u. mount (example_number_world, initial_state) = IllTyped u \<and>
      founder (snd u) = JNumber (js ''123'') \<and> students (snd u) = mock) \<and>
   running example_filled \<and> students (snd example_filled) = mock"
proof -
  have absent: "getItem (localStorage (fst (example_world, initial_state))) profile_key = None"
    by (simp add: example_world_def getItem_def)
  have number: "getItem (localStorage (fst (example_number_world, initial_state))) profile_key =
     Some (js ''123'')"
    by (simp add: example_number_world_def getItem_def)
  have untyped: "as_founder (JNumber (js ''123'')) = None"
    by (simp add: as_founder_def)
  have "students (snd example_mounted) = mock"
    using candidate_list_fixed [of "(example_world, initial_state)" example_mounted]
      mount_example_world by blast
  moreover have "students (snd example_filled) = mock"
    using candidate_list_fixed [of example_filled] running_example_filled by blast
  moreover have "\<exists>u. mount (example_number_world, initial_state) = IllTyped u \<and>
      founder (snd u) = JNumber (js ''123'') \<and> students (snd u) = mock"
    using candidate_list_fixed [of "(example_number_world, initial_state)"]
      number js_nonempty [of "CHR ''1''" "''23''"] JSON_parse_number untyped
    by (metis option.distinct(1))
  ultimately show ?thesis
    using mount_example_world running_example_filled absent number JSON_parse_number by blast
qed

text \<open>
  Claim C4 as it stands fails for one stored state: a value that is not JSON makes the
  effect throw before it sets the list, which stays empty.
\<close>

theorem candidate_list_not_set_on_parse_error:
  "mount (example_garbage_world, initial_state) =
     Threw SyntaxError
       (record_effect (GetItem profile_key) example_garbage_world, initial_state) \<and>
   students initial_state = [] \<and> mock \<noteq> []"
  by (simp add: mount_def localStorage_getItem_def truthy_def example_garbage_world_def
      getItem_def js_nonempty JSON_parse_garbage initial_state_def mock_def)

text \<open>
  Claim C9, as amended. When the value stored under the profile key is not empty and
  \<^verbatim>\<open>JSON.parse\<close> rejects it, the mount effect does not handle the failure: the error
  leaves the effect right after the read, and neither the founder nor the list of
  students has been set.
\<close>

theorem malformed_profile_throws:
  assumes "getItem (localStorage (fst c)) profile_key = Some s" "s \<noteq> []" "JSON_parse s = Inl e"
  shows "mount c = Threw e (record_effect (GetItem profile_key) (fst c), snd c)"
  using assms by (simp add: mount_def localStorage_getItem_def truthy_def)

theorem malformed_profile_throws_witness:
  "getItem (localStorage (fst (example_malformed_world, initial_state))) profile_key =
     Some (js ''{broken'') \<and>
   js ''{broken'' \<noteq> [] \<and> JSON_parse (js ''{broken'') = Inl SyntaxError \<and>
   mount (example_malformed_world, initial_state) =
     Threw SyntaxError
       (record_effect (GetItem profile_key) example_malformed_world, initial_state)"
proof -
  have stored: "getItem (localStorage (fst (example_malformed_world, initial_state))) profile_key =
     Some (js ''{broken'')"
    by (simp add: example_malformed_world_def getItem_def)
  have nonempty: "js ''{broken'' \<noteq> []"
    by (rule js_nonempty)
  show ?thesis
    using stored nonempty JSON_parse_broken
      malformed_profile_throws [OF stored nonempty JSON_parse_broken]
    by simp
qed

text \<open>
  Claim C9 as it stands fails: with a malformed value stored, the effect throws and the
  list of students stays empty, while with nothing stored the effect completes and sets
  the list.
\<close>

theorem malformed_profile_not_swallowed:
  "mount (example_malformed_world, initial_state) =
     Threw SyntaxError
       (record_effect (GetItem profile_key) example_malformed_world, initial_state) \<and>
   mount (example_world, initial_state) = Mounted example_mounted \<and>
   students (snd example_mounted) = mock \<and> students initial_state = [] \<and> mock \<noteq> []"
proof -
  have "mount (example_malformed_world, initial_state) =
     Threw SyntaxError
       (record_effect (GetItem profile_key) example_malformed_world, initial_state)"
    by (simp add: mount_def localStorage_getItem_def truthy_def example_malformed_world_def
        getItem_def js_nonempty JSON_parse_broken)
  moreover have "students (snd example_mounted) = mock"
    by (simp add: example_mounted_def setStudents_def)
  moreover have "students initial_state = []" "mock \<noteq> []"
    by (simp_all add: initial_state_def mock_def)
  ultimately show ?thesis
    using mount_example_world by simp
qed

subsection \<open>Contact and Hire\<close>

text \<open>
  Claim C8. Hire leaves the state of the component (founder, form, students, flag), the
  local store and the location as they are; all it does is show one alert.
\<close>

theorem handleHire_frame:
  "snd (handleHire student c) = snd c \<and>
   localStorage (fst (handleHire student c)) = localStorage (fst c) \<and>
   location_href (fst (handleHire student c)) = location_href (fst c) \<and>
   log (fst (handleHire student c)) =
     log (fst c) @ [Alert (js ''Hiring request sent for '' @ s_name student)]"
  by (simp add: handleHire_def alert_def record_effect_def)

lemma url_encoded_no_space: "url_encoded s \<Longrightarrow> 0x20 \<notin> set s"
  by (induction s rule: url_encoded.induct)
     (auto simp: is_uri_char_def is_hex_digit_def js_def split: if_splits list.splits)

lemma url_encoded_value: "url_encoded (js ''Collaboration%20with%20'')"
  by (simp add: js_def is_uri_char_def is_hex_digit_def)

lemma zoya_fields:
  "s_name zoya = js ''Zoya Khan''" "s_contactEmail zoya = js ''zoya@example.com''"
  by (simp_all add: zoya_def mock_def)

text \<open>
  Claim C6. The claim says subject and body of the link are URL-encoded, names
  included. The code encodes the fixed words of its template by hand and inserts the
  name as it is: for the candidate Zoya Khan the subject and the body hold a raw space,
  whoever the founder is.
\<close>

theorem contact_link_unencoded:
  "contact_subject zoya = js ''Collaboration%20with%20Zoya Khan'' \<and>
   url_encoded (js ''Collaboration%20with%20'') \<and>
   \<not> url_encoded (contact_subject zoya) \<and>
   \<not> url_encoded (contact_body zoya fo)"
proof -
  have "0x20 \<in> set (s_name zoya)"
    by (simp add: zoya_fields js_def)
  then have "0x20 \<in> set (contact_subject zoya)" "0x20 \<in> set (contact_body zoya fo)"
    by (simp_all add: contact_subject_def contact_body_def)
  then have "\<not> url_encoded (contact_subject zoya)" "\<not> url_encoded (contact_body zoya fo)"
    using url_encoded_no_space by blast+
  moreover have "contact_subject zoya = js ''Collaboration%20with%20Zoya Khan''"
    by (simp add: contact_subject_def zoya_fields js_def)
  ultimately show ?thesis
    using url_encoded_value by simp
qed

lemma split_on_single: "c \<notin> set a \<Longrightarrow> split_on c a = [a]"
  by (induction a) auto

lemma split_on_first: "c \<notin> set a \<Longrightarrow> split_on c (a @ c # b) = a # split_on c b"
  by (induction a) auto

lemma strip_word_append: "strip_word w (w @ r) = Some r"
  by (simp add: strip_word_def)

lemma takeWhile_until: "x \<notin> set a \<Longrightarrow> takeWhile (\<lambda>y. y \<noteq> x) (a @ x # b) = a"
  by (induction a) auto

lemma dropWhile_until: "x \<notin> set a \<Longrightarrow> dropWhile (\<lambda>y. y \<noteq> x) (a @ x # b) = x # b"
  by (induction a) auto

lemma takeWhile_all: "x \<notin> set a \<Longrightarrow> takeWhile (\<lambda>y. y \<noteq> x) a = a"
  by (induction a) auto

lemma header_field_subject: "header_field (js ''subject='' @ v) = (js ''subject'', v)"
  by (simp add: header_field_def js_def)

lemma header_field_body: "header_field (js ''body='' @ v) = (js ''body'', v)"
  by (simp add: header_field_def js_def)

text \<open>
  Where the contact email holds no \<^verbatim>\<open>?\<close> or \<^verbatim>\<open>#\<close>, and the name and the company
  no \<^verbatim>\<open>&\<close> or \<^verbatim>\<open>#\<close>, the link reads back as it was built.
\<close>

lemma contact_link_read_back:
  assumes email: "0x3F \<notin> set (s_contactEmail student)" "0x23 \<notin> set (s_contactEmail student)"
    and name: "0x26 \<notin> set (s_name student)" "0x23 \<notin> set (s_name student)"
    and company: "0x26 \<notin> set (company_or_default fo)" "0x23 \<notin> set (company_or_default fo)"
  shows "mailto_recipient (contact_href student fo) = Some (s_contactEmail student)"
    and "mailto_field ''subject'' (contact_href student fo) = Some (contact_subject student)"
    and "mailto_field ''body'' (contact_href student fo) = Some (contact_body student fo)"
proof -
  let ?rest = "s_contactEmail student @ 0x3F # js ''subject='' @ contact_subject student @
      0x26 # js ''body='' @ contact_body student fo"
  have href: "contact_href student fo = js ''mailto:'' @ ?rest"
    by (simp add: contact_href_def js_def)
  have subject: "0x26 \<notin> set (js ''subject='' @ contact_subject student)"
    "0x23 \<notin> set (js ''subject='' @ contact_subject student)"
    using name by (simp_all add: contact_subject_def js_def)
  have body: "0x26 \<notin> set (js ''body='' @ contact_body student fo)"
    "0x23 \<notin> set (js ''body='' @ contact_body student fo)"
    using name company by (simp_all add: contact_body_def js_def)
  have "0x23 \<notin> set ?rest"
    using email subject body by simp
  then have whole: "without_fragment ?rest = ?rest"
    unfolding without_fragment_def by (rule takeWhile_all)
  have query: "mailto_query (contact_href student fo) =
      Some ((js ''subject='' @ contact_subject student) @ 0x26 #
        (js ''body='' @ contact_body student fo))"
    using dropWhile_until [OF email(1)]
    by (simp add: mailto_query_def href strip_word_append whole del: append_assoc)
  have fields: "split_on 0x26 ((js ''subject='' @ contact_subject student) @ 0x26 #
        (js ''body='' @ contact_body student fo)) =
      [js ''subject='' @ contact_subject student, js ''body='' @ contact_body student fo]"
    using split_on_first [OF subject(1)] split_on_single [OF body(1)] by simp
  have distinct: "js ''subject'' \<noteq> js ''body''"
    by (simp add: js_def)
  show "mailto_recipient (contact_href student fo) = Some (s_contactEmail student)"
    using takeWhile_until [OF email(1)]
    by (simp add: mailto_recipient_def href strip_word_append whole)
  show "mailto_field ''subject'' (contact_href student fo) = Some (contact_subject student)"
    by (simp only: mailto_field_def query fields option.case list.map header_field_subject
        header_field_body map_of.simps fst_conv snd_conv fun_upd_same)
  show "mailto_field ''body'' (contact_href student fo) = Some (contact_body student fo)"
    using distinct
    by (simp only: mailto_field_def query fields option.case list.map header_field_subject
        header_field_body map_of.simps fst_conv snd_conv fun_upd_same fun_upd_other
        not_False_eq_True)
qed

lemma founder_example_ampersand: "founder (snd example_ampersand) = Some ampersand_profile"
proof -
  have form: "form (snd (fire (ChangeCompany (js ''AT&T'')) example_filled)) =
      \<lparr>form_name = js ''Rohan'', form_company = js ''AT&T'', form_email = js ''r@acme.com'',
       form_website = []\<rparr>"
    by (simp add: fire_def setForm_def form_example_filled)
  have accepted: "accepts (localStorage (fst (fire (ChangeCompany (js ''AT&T'')) example_filled))) k v"
    for k v
    by (simp add: fire_def setForm_def record_effect_def accepts_example_filled)
  have trimmed: "trim (js ''AT&T'') = js ''AT&T''"
    by (simp add: trim_def js_def is_whitespace_def)
  have "truthy (canSubmit (form (snd (fire (ChangeCompany (js ''AT&T'')) example_filled))))"
    by (simp add: truthy_canSubmit form trim_examples trimmed js_nonempty)
  then show ?thesis
    unfolding example_ampersand_def
    by (simp add: fire_def [of "Submit None"] handleSignup_state accepted form make_profile_def
        trim_examples trimmed profile_id_def or_undefined_def truthy_def ampersand_profile_def
        example_profile_def)
qed

lemma href_ampersand:
  "contact_href zoya (Some ampersand_profile) =
     js ''mailto:zoya@example.com?subject=Collaboration%20with%20Zoya Khan&body=Hi%20Zoya Khan,%0D%0A%0D%0AI%20would%20love%20to%20connect%20regarding%20opportunities%20at%20AT&T.''"
  by (simp add: contact_href_def contact_subject_def contact_body_def company_or_default_def
      js_or_def truthy_def ampersand_profile_def example_profile_def zoya_fields js_def)

lemma href_acme:
  "contact_href zoya (Some example_profile) =
     js ''mailto:zoya@example.com?subject=Collaboration%20with%20Zoya Khan&body=Hi%20Zoya Khan,%0D%0A%0D%0AI%20would%20love%20to%20connect%20regarding%20opportunities%20at%20Acme.''"
  by (simp add: contact_href_def contact_subject_def contact_body_def company_or_default_def
      js_or_def truthy_def example_profile_def zoya_fields js_def)

lemma read_ampersand:
  "mailto_recipient (js ''mailto:zoya@example.com?subject=Collaboration%20with%20Zoya Khan&body=Hi%20Zoya Khan,%0D%0A%0D%0AI%20would%20love%20to%20connect%20regarding%20opportunities%20at%20AT&T.'') =
     Some (js ''zoya@example.com'')"
  "mailto_field ''subject'' (js ''mailto:zoya@example.com?subject=Collaboration%20with%20Zoya Khan&body=Hi%20Zoya Khan,%0D%0A%0D%0AI%20would%20love%20to%20connect%20regarding%20opportunities%20at%20AT&T.'') =
     Some (js ''Collaboration%20with%20Zoya Khan'')"
  "mailto_field ''body'' (js ''mailto:zoya@example.com?subject=Collaboration%20with%20Zoya Khan&body=Hi%20Zoya Khan,%0D%0A%0D%0AI%20would%20love%20to%20connect%20regarding%20opportunities%20at%20AT&T.'') =
     Some (js ''Hi%20Zoya Khan,%0D%0A%0D%0AI%20would%20love%20to%20connect%20regarding%20opportunities%20at%20AT'')"
  by code_simp+

lemma body_without_company:
  "\<not> sublist (js ''AT&T'')
     (js ''Hi%20Zoya Khan,%0D%0A%0D%0AI%20would%20love%20to%20connect%20regarding%20opportunities%20at%20AT'')"
  by code_simp

lemma read_acme:
  "mailto_recipient (js ''mailto:zoya@example.com?subject=Collaboration%20with%20Zoya Khan&body=Hi%20Zoya Khan,%0D%0A%0D%0AI%20would%20love%20to%20connect%20regarding%20opportunities%20at%20Acme.'') =
     Some (js ''zoya@example.com'')"
  "mailto_field ''body'' (js ''mailto:zoya@example.com?subject=Collaboration%20with%20Zoya Khan&body=Hi%20Zoya Khan,%0D%0A%0D%0AI%20would%20love%20to%20connect%20regarding%20opportunities%20at%20Acme.'') =
     Some (js ''Hi%20Zoya Khan,%0D%0A%0D%0AI%20would%20love%20to%20connect%20regarding%20opportunities%20at%20Acme.'')"
  "sublist (js ''Zoya Khan'') (js ''Hi%20Zoya Khan,%0D%0A%0D%0AI%20would%20love%20to%20connect%20regarding%20opportunities%20at%20Acme.'')"
  "sublist (js ''Acme'') (js ''Hi%20Zoya Khan,%0D%0A%0D%0AI%20would%20love%20to%20connect%20regarding%20opportunities%20at%20Acme.'')"
  by code_simp+

text \<open>
  Claim C5. The claim says that for every founder the body of the link holds the company
  of the founder. The code inserts the company as it is: for the company AT&T, which
  the form accepts, the \<^verbatim>\<open>&\<close> ends the body field, and the body read from the link
  stops at AT. Recipient and subject are as the claim says, and the link of the claim's
  own example (Zoya Khan, Acme) reads back as claimed.
\<close>

theorem contact_link_loses_company:
  "founder (snd example_ampersand) = Some ampersand_profile \<and>
   f_company ampersand_profile = js ''AT&T'' \<and>
   location_href (fst (handleContact zoya example_ampersand)) =
     js ''mailto:zoya@example.com?subject=Collaboration%20with%20Zoya Khan&body=Hi%20Zoya Khan,%0D%0A%0D%0AI%20would%20love%20to%20connect%20regarding%20opportunities%20at%20AT&T.'' \<and>
   mailto_recipient (location_href (fst (handleContact zoya example_ampersand))) =
     Some (js ''zoya@example.com'') \<and>
   mailto_field ''subject'' (location_href (fst (handleContact zoya example_ampersand))) =
     Some (js ''Collaboration%20with%20Zoya Khan'') \<and>
   mailto_field ''body'' (location_href (fst (handleContact zoya example_ampersand))) =
     Some (js ''Hi%20Zoya Khan,%0D%0A%0D%0AI%20would%20love%20to%20connect%20regarding%20opportunities%20at%20AT'') \<and>
   \<not> (\<exists>b. mailto_field ''body'' (location_href (fst (handleContact zoya example_ampersand))) =
          Some b \<and> sublist (js ''AT&T'') b) \<and>
   mailto_recipient (contact_href zoya (Some example_profile)) = Some (js ''zoya@example.com'') \<and>
   (\<exists>b. mailto_field ''body'' (contact_href zoya (Some example_profile)) = Some b \<and>
      sublist (js ''Zoya Khan'') b \<and> sublist (js ''Acme'') b)"
proof -
  have href: "location_href (fst (handleContact zoya example_ampersand)) =
      contact_href zoya (Some ampersand_profile)"
    by (simp add: handleContact_def navigate_def record_effect_def founder_example_ampersand)
  have "f_company ampersand_profile = js ''AT&T''"
    by (simp add: ampersand_profile_def)
  then show ?thesis
    using body_without_company
    by (simp add: href href_ampersand href_acme read_ampersand read_acme
        founder_example_ampersand)
qed

end
